theory Spec2Isabelle
  imports Complex_Main "HOL-Library.Char_ord" "HOL-Library.List_Lexorder" "HOL-Library.Multiset"
begin

section \<open>Data model\<close>

text \<open>
  The program (\<^verbatim>\<open>src/scripts/data_processor.py\<close>, class \<^verbatim>\<open>MiningDataProcessor\<close>)
  works on pandas data frames. A frame is modelled as the list of its rows, a row as a
  record with one field per column. Column names are transliterated to ASCII:
  \<^verbatim>\<open>'Moyenne U (ppm)'\<close> is \<open>Moyenne_U_ppm\<close>, \<^verbatim>\<open>'de (m)'\<close> is \<open>de_m\<close>, and so on.

  A cell of a float column is a \<open>float64\<close>: \<open>Some x\<close> is the number \<open>x\<close> and \<open>None\<close> is
  NaN, the missing value of pandas. Elementwise arithmetic on numbers is exact arithmetic
  on the reals, and the infinities of IEEE doubles are outside the model. Rounding is
  modelled where it decides what a claim is about: the sum of a column adds doubles as
  numpy does, and the numerical results of scikit-learn and Qhull, which depend on their
  arithmetic in double precision, are parameters.
\<close>

type_synonym float64 = "real option"

text \<open>A cell of a column as it is read, before \<^verbatim>\<open>pd.to_numeric\<close>: a number, a string, or
  missing.\<close>

datatype raw_cell = Num real | Str string | Missing

text \<open>The fourteen columns of an anomaly record. \<open>'c\<close> is the type of the cells of the eleven
  columns that \<^verbatim>\<open>load_and_preprocess_data\<close> converts, \<open>'l\<close> the type of a lithology cell.\<close>

record ('c, 'l) anomaly =
  N_Anomalie :: raw_cell
  N_Tranche :: raw_cell
  Debut_EUTM :: 'c
  Debut_NUTM :: 'c
  Fin_EUTM :: 'c
  Fin_NUTM :: 'c
  Direction :: 'c
  Longueur_m :: 'c
  de_m :: 'c
  a_m :: 'c
  Epaisseur_m :: 'c
  Moyenne_U_ppm :: 'c
  Max_U_ppm :: 'c
  Lithologie :: 'l

text \<open>A row of the preprocessed frame: the converted columns and the derived ones.\<close>

record processed = "(float64, string) anomaly" +
  X_mean :: float64
  Y_mean :: float64
  Z_mean :: float64
  Lithologie_encoded :: int
  Volume_approx :: float64
  Gradient_U :: float64

subsection \<open>Column arithmetic and reductions\<close>

text \<open>Elementwise arithmetic propagates NaN; a comparison with NaN is false.\<close>

definition fadd :: "float64 \<Rightarrow> float64 \<Rightarrow> float64" where
  "fadd a b = (case a of None \<Rightarrow> None | Some x \<Rightarrow> (case b of None \<Rightarrow> None | Some y \<Rightarrow> Some (x + y)))"

definition fsub :: "float64 \<Rightarrow> float64 \<Rightarrow> float64" where
  "fsub a b = (case a of None \<Rightarrow> None | Some x \<Rightarrow> (case b of None \<Rightarrow> None | Some y \<Rightarrow> Some (x - y)))"

definition fmul :: "float64 \<Rightarrow> float64 \<Rightarrow> float64" where
  "fmul a b = (case a of None \<Rightarrow> None | Some x \<Rightarrow> (case b of None \<Rightarrow> None | Some y \<Rightarrow> Some (x * y)))"

definition fscale :: "float64 \<Rightarrow> real \<Rightarrow> float64" where
  "fscale a k = map_option (\<lambda>x. x * k) a"

definition fdivc :: "float64 \<Rightarrow> real \<Rightarrow> float64" where
  "fdivc a k = map_option (\<lambda>x. x / k) a"

definition fge :: "float64 \<Rightarrow> real \<Rightarrow> bool" where
  "fge a c = (case a of None \<Rightarrow> False | Some x \<Rightarrow> c \<le> x)"

text \<open>The values of a column that are not NaN.\<close>

definition present :: "float64 list \<Rightarrow> real list" where
  "present xs = concat (map (\<lambda>c. case c of None \<Rightarrow> [] | Some x \<Rightarrow> [x]) xs)"

text \<open>
  \<^verbatim>\<open>Series.sum()\<close> replaces NaN by 0 (\<^verbatim>\<open>skipna=True\<close>) and has numpy add the doubles. Every
  addition rounds its exact result to the nearest double, ties to the even mantissa: a
  double has a mantissa of 53 bits, and below the binary exponent \<open>- 1022\<close> the spacing of
  the doubles no longer shrinks. \<open>exponent x\<close> is the integer \<open>e\<close> with
  \<open>2 powi e \<le> \<bar>x\<bar> < 2 powi (e + 1)\<close>, and \<open>ulp x\<close> is the spacing of the doubles around \<open>x\<close>.
  Overflow to infinity is not modelled.
\<close>

function log2_floor :: "int \<Rightarrow> int" where
  "log2_floor k = (if k < 2 then 0 else 1 + log2_floor (k div 2))"
  by pat_completeness auto
termination
  by (relation "measure nat") simp_all

declare log2_floor.simps [simp del]

definition exponent :: "real \<Rightarrow> int" where
  "exponent x =
     (if 1 \<le> \<bar>x\<bar> then log2_floor \<lfloor>\<bar>x\<bar>\<rfloor>
      else - (1 + log2_floor (\<lceil>1 / \<bar>x\<bar>\<rceil> - 1)))"

definition round_half_even :: "real \<Rightarrow> int" where
  "round_half_even x =
     (let f = \<lfloor>x\<rfloor>; d = x - of_int f
      in if d < 1 / 2 then f else if 1 / 2 < d then f + 1 else if even f then f else f + 1)"

definition ulp :: "real \<Rightarrow> real" where
  "ulp x = 2 powi (max (exponent x) (- 1022) - 52)"

definition round_double :: "real \<Rightarrow> real" where
  "round_double x = (if x = 0 then 0 else of_int (round_half_even (x / ulp x)) * ulp x)"

definition dadd :: "real \<Rightarrow> real \<Rightarrow> real" where
  "dadd a b = round_double (a + b)"

text \<open>
  The order of the additions is that of numpy's pairwise summation (\<^verbatim>\<open>pairwise_sum\<close> in
  \<^verbatim>\<open>loops_utils.h.src\<close>), which depends on the number \<open>n\<close> of addends: fewer than 8 are added
  one after the other; up to 128 are added into 8 accumulators, which are then added in
  pairs, before the last \<open>n mod 8\<close> addends are added one after the other; more than
  128 are split in two halves that are summed separately.
\<close>

fun add_blocks :: "real list \<Rightarrow> real list \<Rightarrow> real list" where
  "add_blocks r xs =
     (if length xs < 8 then r else add_blocks (map (\<lambda>(a, b). dadd a b) (zip r (take 8 xs))) (drop 8 xs))"

declare add_blocks.simps [simp del]

function pairwise_sum :: "real list \<Rightarrow> real" where
  "pairwise_sum a =
     (let n = length a
      in if n < 8 then fold (\<lambda>x res. dadd res x) a 0
         else if n \<le> 128 then
           (let r = add_blocks (take 8 a) (drop 8 a);
                res = dadd (dadd (dadd (r ! 0) (r ! 1)) (dadd (r ! 2) (r ! 3)))
                           (dadd (dadd (r ! 4) (r ! 5)) (dadd (r ! 6) (r ! 7)))
            in fold (\<lambda>x res. dadd res x) (drop (n - n mod 8) a) res)
         else (let n2 = n div 2 - (n div 2) mod 8
               in dadd (pairwise_sum (take n2 a)) (pairwise_sum (drop n2 a))))"
  by pat_completeness auto
termination
proof (relation "measure length")
  show "wf (measure length)" by simp
next
  fix a :: "real list" and n n2
  assume h: "n = length a" "\<not> n < 8" "\<not> n \<le> 128" "n2 = n div 2 - (n div 2) mod 8"
  have "(n div 2) mod 8 < 8" by simp
  moreover have "64 \<le> n div 2" "n div 2 < n" using h(3) by simp_all
  ultimately have "n2 < n" "0 < n2" unfolding h(4) by linarith+
  then show "(take n2 a, a) \<in> measure length" "(drop n2 a, a) \<in> measure length"
    using h(1) by simp_all
qed

declare pairwise_sum.simps [simp del]

text \<open>The sum of no value is 0.\<close>

definition series_sum :: "float64 list \<Rightarrow> real" where
  "series_sum xs = pairwise_sum (map (\<lambda>c. case c of None \<Rightarrow> 0 | Some x \<Rightarrow> x) xs)"

text \<open>\<^verbatim>\<open>Series.mean()\<close> skips NaN; the mean of no value is NaN, without an exception. It is
  kept in exact arithmetic.\<close>

definition series_mean :: "float64 list \<Rightarrow> float64" where
  "series_mean xs =
     (let ys = present xs in if ys = [] then None else Some (sum_list ys / real (length ys)))"

section \<open>Reserve calculator\<close>

text \<open>A row of \<^verbatim>\<open>ore_data\<close>: a row of the input frame with the two added columns.\<close>

record 'r ore_row =
  base :: 'r
  Tonnage :: float64
  Metal_content :: float64

text \<open>The dictionary \<^verbatim>\<open>reserves\<close>.\<close>

record reserves =
  total_tonnage :: real
  average_grade :: float64
  metal_content :: real
  ore_blocks :: nat

definition add_tonnage :: "'z processed_scheme \<Rightarrow> 'z processed_scheme ore_row" where
  "add_tonnage r =
     (let t = fscale (Volume_approx r) 2.7
      in \<lparr>base = r, Tonnage = t, Metal_content = fdivc (fmul t (Moyenne_U_ppm r)) 1000000\<rparr>)"

definition calculate_ore_reserves ::
  "'z processed_scheme list \<Rightarrow> real \<Rightarrow> reserves \<times> 'z processed_scheme ore_row list" where
  "calculate_ore_reserves df cutoff_grade =
     (let ore_data = map add_tonnage (filter (\<lambda>r. fge (Moyenne_U_ppm r) cutoff_grade) df);
          reserves = \<lparr>total_tonnage = series_sum (map Tonnage ore_data),
                      average_grade = series_mean (map (\<lambda>r. Moyenne_U_ppm (base r)) ore_data),
                      metal_content = series_sum (map Metal_content ore_data),
                      ore_blocks = length ore_data\<rparr>
      in (reserves, ore_data))"

section \<open>Processor state and errors\<close>

text \<open>The exceptions the operations raise: \<^verbatim>\<open>ValueError\<close> (raised by the preprocessor and by
  the argument checks of the libraries) and \<^verbatim>\<open>QhullError\<close> (raised by the triangulation
  behind \<^verbatim>\<open>scipy.interpolate.griddata\<close>). A raise is the result \<open>Inl e\<close>.\<close>

datatype error = ValueError | QhullError

text \<open>The attributes of \<^verbatim>\<open>MiningDataProcessor\<close>. A fitted \<^verbatim>\<open>StandardScaler\<close> is its
  \<^verbatim>\<open>mean_\<close> and \<^verbatim>\<open>scale_\<close>, a fitted \<^verbatim>\<open>LabelEncoder\<close> its \<^verbatim>\<open>classes_\<close>; \<open>None\<close> is
  an estimator that was not fitted yet. \<open>'m\<close> is the type of fitted regression models.\<close>

record 'm processor =
  scaler :: "(float64 list \<times> float64 list) option"
  label_encoder :: "string list option"
  uranium_model :: "'m option"
  thickness_model :: "'m option"

definition new_processor :: "'m processor" where
  "new_processor =
     \<lparr>scaler = None, label_encoder = None, uranium_model = None, thickness_model = None\<rparr>"

section \<open>Preprocessor\<close>

text \<open>A frame as it is handed to \<^verbatim>\<open>load_and_preprocess_data\<close> through \<^verbatim>\<open>sample_data\<close>:
  its rows, and whether it has a column \<^verbatim>\<open>'Lithologie'\<close> (the only column whose absence
  the function handles by a branch of its own; the cells of an absent column are not
  read). A lithology cell is a label or missing.\<close>

record raw_frame =
  rows :: "(raw_cell, string option) anomaly list"
  Lithologie_present :: bool

text \<open>\<^verbatim>\<open>pd.to_numeric(_, errors='coerce')\<close> on one cell. How pandas reads a string as a
  number is the parameter \<open>parse\<close>, which gives NaN for a string it cannot read.\<close>

definition to_numeric :: "(string \<Rightarrow> float64) \<Rightarrow> raw_cell \<Rightarrow> float64" where
  "to_numeric parse c = (case c of Num x \<Rightarrow> Some x | Str s \<Rightarrow> parse s | Missing \<Rightarrow> None)"

definition fillna :: "'a option \<Rightarrow> 'a option \<Rightarrow> 'a option" where
  "fillna c v = (case c of None \<Rightarrow> v | Some x \<Rightarrow> Some x)"

text \<open>The loop over \<^verbatim>\<open>numeric_columns\<close>, on one row.\<close>

definition convert_row ::
  "(string \<Rightarrow> float64) \<Rightarrow> (raw_cell, 'l) anomaly \<Rightarrow> (float64, 'l) anomaly" where
  "convert_row parse r =
     \<lparr>N_Anomalie = N_Anomalie r, N_Tranche = N_Tranche r,
      Debut_EUTM = to_numeric parse (Debut_EUTM r),
      Debut_NUTM = to_numeric parse (Debut_NUTM r),
      Fin_EUTM = to_numeric parse (Fin_EUTM r),
      Fin_NUTM = to_numeric parse (Fin_NUTM r),
      Direction = to_numeric parse (Direction r),
      Longueur_m = to_numeric parse (Longueur_m r),
      de_m = to_numeric parse (de_m r),
      a_m = to_numeric parse (a_m r),
      Epaisseur_m = to_numeric parse (Epaisseur_m r),
      Moyenne_U_ppm = to_numeric parse (Moyenne_U_ppm r),
      Max_U_ppm = to_numeric parse (Max_U_ppm r),
      Lithologie = Lithologie r\<rparr>"

text \<open>\<^verbatim>\<open>dropna(subset=critical_columns)\<close> keeps the rows that satisfy this.\<close>

definition critical_present :: "(float64, 'l) anomaly \<Rightarrow> bool" where
  "critical_present r \<longleftrightarrow>
     Debut_EUTM r \<noteq> None \<and> Debut_NUTM r \<noteq> None \<and> Fin_EUTM r \<noteq> None \<and> Fin_NUTM r \<noteq> None
     \<and> Moyenne_U_ppm r \<noteq> None"

text \<open>\<^verbatim>\<open>LabelEncoder.fit_transform\<close>: the classes are the distinct labels in ascending
  order of strings, and a label is encoded as its position among the classes.\<close>

definition fit_classes :: "string list \<Rightarrow> string list" where
  "fit_classes labels = sort (remdups labels)"

definition transform_label :: "string list \<Rightarrow> string \<Rightarrow> int" where
  "transform_label classes l = int (length (takeWhile (\<lambda>c. c \<noteq> l) classes))"

text \<open>The assignment of a whole column \<^verbatim>\<open>'Lithologie'\<close>, on one row.\<close>

definition set_lithologie :: "'k \<Rightarrow> ('c, 'l) anomaly \<Rightarrow> ('c, 'k) anomaly" where
  "set_lithologie l r =
     \<lparr>N_Anomalie = N_Anomalie r, N_Tranche = N_Tranche r,
      Debut_EUTM = Debut_EUTM r, Debut_NUTM = Debut_NUTM r,
      Fin_EUTM = Fin_EUTM r, Fin_NUTM = Fin_NUTM r,
      Direction = Direction r, Longueur_m = Longueur_m r,
      de_m = de_m r, a_m = a_m r, Epaisseur_m = Epaisseur_m r,
      Moyenne_U_ppm = Moyenne_U_ppm r, Max_U_ppm = Max_U_ppm r,
      Lithologie = l\<rparr>"

text \<open>The derived columns of one row, given the two column means used to fill missing
  lengths and thicknesses and the encoding of the labels.\<close>

definition derive_row ::
  "float64 \<Rightarrow> float64 \<Rightarrow> (string \<Rightarrow> int) \<Rightarrow> (float64, string) anomaly \<Rightarrow> processed" where
  "derive_row mean_longueur mean_epaisseur encode r =
     (let longueur = fillna (Longueur_m r) mean_longueur;
          epaisseur = fillna (Epaisseur_m r) mean_epaisseur
      in \<lparr>N_Anomalie = N_Anomalie r, N_Tranche = N_Tranche r,
          Debut_EUTM = Debut_EUTM r, Debut_NUTM = Debut_NUTM r,
          Fin_EUTM = Fin_EUTM r, Fin_NUTM = Fin_NUTM r,
          Direction = Direction r, Longueur_m = longueur,
          de_m = de_m r, a_m = a_m r, Epaisseur_m = epaisseur,
          Moyenne_U_ppm = Moyenne_U_ppm r, Max_U_ppm = Max_U_ppm r,
          Lithologie = Lithologie r,
          X_mean = fdivc (fadd (Debut_EUTM r) (Fin_EUTM r)) 2,
          Y_mean = fdivc (fadd (Debut_NUTM r) (Fin_NUTM r)) 2,
          Z_mean = fdivc (fadd (de_m r) (a_m r)) 2,
          Lithologie_encoded = encode (Lithologie r),
          Volume_approx = fscale (fmul longueur epaisseur) 1,
          Gradient_U = fsub (Max_U_ppm r) (Moyenne_U_ppm r)\<rparr>)"

text \<open>\<^verbatim>\<open>load_and_preprocess_data(sample_data=...)\<close>. The processor is passed in and returned:
  the call refits \<^verbatim>\<open>self.label_encoder\<close> when the frame has a lithology column. The
  function works on a copy of the frame. It raises \<^verbatim>\<open>ValueError\<close> when no row is left
  after the rows with a missing critical cell are dropped.\<close>

definition load_and_preprocess_data ::
  "(string \<Rightarrow> float64) \<Rightarrow> 'm processor \<Rightarrow> raw_frame \<Rightarrow> error + ('m processor \<times> processed list)" where
  "load_and_preprocess_data parse self sample_data =
     (let df = filter critical_present (map (convert_row parse) (rows sample_data))
      in if length df = 0 then Inl ValueError
         else
           let (self', df', encode) =
                 (if Lithologie_present sample_data
                  then let df' = map (\<lambda>r. set_lithologie
                                      (case Lithologie r of None \<Rightarrow> ''Inconnu'' | Some l \<Rightarrow> l) r) df;
                           classes = fit_classes (map Lithologie df')
                       in (self\<lparr>label_encoder := Some classes\<rparr>, df', transform_label classes)
                  else (self, map (set_lithologie ''Inconnu'') df, (\<lambda>l. 0)));
               mean_longueur = series_mean (map Longueur_m df');
               mean_epaisseur = series_mean (map Epaisseur_m df')
           in Inr (self', map (derive_row mean_longueur mean_epaisseur encode) df'))"

subsection \<open>The synthetic generator\<close>

text \<open>
  \<^verbatim>\<open>create_sample_data\<close> seeds numpy's global generator with 42 and then draws thirteen
  arrays from it. The generator itself (the Mersenne Twister and its conversions to doubles)
  is not modelled: the values it delivers are the parameter \<open>d\<close>. \<open>unif d k i\<close> is the sample
  of \<^verbatim>\<open>random_sample\<close>, a number in \<open>[0, 1)\<close>, behind entry \<open>i\<close> of the \<open>k\<close>-th array drawn with
  \<^verbatim>\<open>np.random.uniform\<close>; \<open>gauss d i\<close> is the standard normal sample behind entry \<open>i\<close> of
  \<^verbatim>\<open>uranium_noise\<close>; \<open>choice_index d i\<close> is the index below 4 drawn by \<^verbatim>\<open>np.random.choice\<close>;
  \<open>tranche d i\<close> is the integer drawn by \<^verbatim>\<open>np.random.randint(1, 20)\<close>. The stream of seed
  42 is one value of \<open>d\<close>.
\<close>

record draws =
  unif :: "nat \<Rightarrow> nat \<Rightarrow> real"
  gauss :: "nat \<Rightarrow> real"
  choice_index :: "nat \<Rightarrow> nat"
  tranche :: "nat \<Rightarrow> int"

text \<open>\<^verbatim>\<open>np.random.uniform(low, high)\<close> computes \<^verbatim>\<open>low + (high - low) * random_sample()\<close>.\<close>

definition uniform :: "real \<Rightarrow> real \<Rightarrow> real \<Rightarrow> real" where
  "uniform low high u = low + (high - low) * u"

text \<open>Row \<open>i\<close> of the generated frame: entry \<open>i\<close> of each of the arrays of the source.\<close>

definition create_sample_row :: "draws \<Rightarrow> nat \<Rightarrow> (raw_cell, string option) anomaly" where
  "create_sample_row d i =
     (let x_coord = uniform 500000 502000 (unif d 0 i);
          y_coord = uniform 4500000 4502000 (unif d 1 i);
          depth_start = uniform 0 100 (unif d 2 i);
          depth_end = depth_start + uniform 5 50 (unif d 3 i);
          lithology = [''Granite'', ''Schiste'', ''Quartzite'', ''Gneiss''] ! choice_index d i;
          direction = uniform 0 360 (unif d 4 i);
          length = uniform 10 200 (unif d 5 i);
          thickness = uniform 0.5 15 (unif d 6 i);
          uranium_base = 50 + 30 * sin (x_coord / 1000) * cos (y_coord / 1000);
          uranium_noise = 0 + 10 * gauss d i;
          uranium_mean = max 0 (uranium_base + uranium_noise);
          uranium_max = uranium_mean + uniform 0 50 (unif d 7 i)
      in \<lparr>N_Anomalie = Num (real (i + 1)),
          N_Tranche = Num (real_of_int (tranche d i)),
          Debut_EUTM = Num x_coord,
          Debut_NUTM = Num y_coord,
          Fin_EUTM = Num (x_coord + uniform (- 50) 50 (unif d 8 i)),
          Fin_NUTM = Num (y_coord + uniform (- 50) 50 (unif d 9 i)),
          Direction = Num direction,
          Longueur_m = Num length,
          de_m = Num depth_start,
          a_m = Num depth_end,
          Epaisseur_m = Num thickness,
          Moyenne_U_ppm = Num uranium_mean,
          Max_U_ppm = Num uranium_max,
          Lithologie = Some lithology\<rparr>)"

definition create_sample_data :: "draws \<Rightarrow> nat \<Rightarrow> raw_frame" where
  "create_sample_data d n_samples =
     \<lparr>rows = map (create_sample_row d) [0..<n_samples], Lithologie_present = True\<rparr>"

section \<open>Grade predictor\<close>

text \<open>
  \<^verbatim>\<open>train_uranium_model\<close> calls scikit-learn: \<^verbatim>\<open>train_test_split\<close>, a
  \<^verbatim>\<open>RandomForestRegressor\<close> and two metrics. The forest is not modelled: a \<open>learner\<close> holds
  what the function uses of it, fitting (which may raise), prediction (which may raise)
  and the importances of a fitted model. A sample is a row of the seven feature columns with
  its target, the mean grade.
\<close>

type_synonym sample = "float64 list \<times> float64"

record 'm learner =
  fit :: "sample list \<Rightarrow> error + 'm"
  predict :: "'m \<Rightarrow> float64 list list \<Rightarrow> error + real list"
  feature_importances :: "'m \<Rightarrow> real list"

record model_results =
  mse :: real
  r2 :: float64
  feature_importance :: "(string \<times> real) list"

text \<open>The list \<^verbatim>\<open>features\<close> and the cells of these columns in one row.\<close>

definition features :: "string list" where
  "features = [''X_mean'', ''Y_mean'', ''Z_mean'', ''Epaisseur (m)'', ''Longueur (m)'',
               ''Lithologie_encoded'', ''Direction'']"

definition feature_row :: "'z processed_scheme \<Rightarrow> float64 list" where
  "feature_row r = [X_mean r, Y_mean r, Z_mean r, Epaisseur_m r, Longueur_m r,
                    Some (real_of_int (Lithologie_encoded r)), Direction r]"

text \<open>
  \<^verbatim>\<open>train_test_split(X, y, test_size=0.2, random_state=42)\<close>: the test set has
  \<^verbatim>\<open>ceil(0.2 * n_samples)\<close> rows and the training set the others; \<^verbatim>\<open>ValueError\<close> is raised
  when the training set would be empty. The rows are taken in the order of a permutation of
  the row indices, \<^verbatim>\<open>RandomState(42).permutation(n_samples)\<close>, which is the parameter
  \<open>permutation\<close>: the first \<open>n_test\<close> indices are the test rows, the next \<open>n_train\<close> the
  training rows.
\<close>

definition train_test_split :: "(nat \<Rightarrow> nat list) \<Rightarrow> 'a list \<Rightarrow> error + ('a list \<times> 'a list)" where
  "train_test_split permutation xs =
     (let n_samples = length xs;
          n_test = nat \<lceil>0.2 * real n_samples\<rceil>;
          n_train = n_samples - n_test
      in if n_train = 0 then Inl ValueError
         else let p = permutation n_samples;
                  ind_test = take n_test p;
                  ind_train = take n_train (drop n_test p)
              in Inr (map (\<lambda>i. xs ! i) ind_train, map (\<lambda>i. xs ! i) ind_test))"

text \<open>\<^verbatim>\<open>mean_squared_error\<close> and \<^verbatim>\<open>r2_score\<close>. The score of fewer than two samples is
  NaN; for a constant \<^verbatim>\<open>y_true\<close> it is 1 when the prediction is exact and 0 otherwise.\<close>

definition mean_squared_error :: "real list \<Rightarrow> real list \<Rightarrow> real" where
  "mean_squared_error y_true y_pred =
     sum_list (map (\<lambda>(t, p). (t - p)\<^sup>2) (zip y_true y_pred)) / real (length y_true)"

definition r2_score :: "real list \<Rightarrow> real list \<Rightarrow> float64" where
  "r2_score y_true y_pred =
     (if length y_true < 2 then None
      else let numerator = sum_list (map (\<lambda>(t, p). (t - p)\<^sup>2) (zip y_true y_pred));
               average = sum_list y_true / real (length y_true);
               denominator = sum_list (map (\<lambda>t. (t - average)\<^sup>2) y_true)
           in if denominator \<noteq> 0 then Some (1 - numerator / denominator)
              else if numerator \<noteq> 0 then Some 0 else Some 1)"

text \<open>Lines 131 to 140 of the source: fit on the training set, predict the test set, score.
  The metrics raise \<^verbatim>\<open>ValueError\<close> on a NaN target and on lists of different lengths.\<close>

definition fit_and_score ::
  "'m learner \<Rightarrow> 'm processor \<Rightarrow> sample list \<Rightarrow> sample list \<Rightarrow> error + ('m processor \<times> model_results)" where
  "fit_and_score rf self train test =
     (case fit rf train of
        Inl e \<Rightarrow> Inl e
      | Inr m \<Rightarrow>
          (case predict rf m (map fst test) of
             Inl e \<Rightarrow> Inl e
           | Inr y_pred \<Rightarrow>
               if None \<in> set (map snd test) \<or> length y_pred \<noteq> length test then Inl ValueError
               else let y_test = present (map snd test)
                    in Inr (self\<lparr>uranium_model := Some m\<rparr>,
                            \<lparr>mse = mean_squared_error y_test y_pred,
                             r2 = r2_score y_test y_pred,
                             feature_importance = zip features (feature_importances rf m)\<rparr>)))"

definition train_uranium_model ::
  "'m learner \<Rightarrow> (nat \<Rightarrow> nat list) \<Rightarrow> 'm processor \<Rightarrow> 'z processed_scheme list
     \<Rightarrow> error + ('m processor \<times> model_results)" where
  "train_uranium_model rf permutation self df =
     (case train_test_split permutation (map (\<lambda>r. (feature_row r, Moyenne_U_ppm r)) df) of
        Inl e \<Rightarrow> Inl e
      | Inr (train, test) \<Rightarrow> fit_and_score rf self train test)"

section \<open>Grid interpolator\<close>

text \<open>A sample point or a lattice point: its X, Y and Z coordinate.\<close>

type_synonym point = "real \<times> real \<times> real"

text \<open>\<^verbatim>\<open>Series.min()\<close> and \<^verbatim>\<open>Series.max()\<close> skip NaN; the minimum of no value is NaN.\<close>

definition series_min :: "float64 list \<Rightarrow> float64" where
  "series_min xs = (case present xs of [] \<Rightarrow> None | y # ys \<Rightarrow> Some (fold min ys y))"

definition series_max :: "float64 list \<Rightarrow> float64" where
  "series_max xs = (case present xs of [] \<Rightarrow> None | y # ys \<Rightarrow> Some (fold max ys y))"

text \<open>\<^verbatim>\<open>np.linspace(start, stop, num)\<close>: \<open>num\<close> points, entry \<open>i\<close> being
  \<^verbatim>\<open>i * ((stop - start) / (num - 1)) + start\<close> and the last entry \<open>stop\<close>; a single point is
  \<open>start\<close>. (A negative \<open>num\<close> raises \<^verbatim>\<open>ValueError\<close>: see \<open>interpolate_3d_grid\<close>.)\<close>

definition linspace :: "float64 \<Rightarrow> float64 \<Rightarrow> nat \<Rightarrow> float64 list" where
  "linspace start stop num =
     map (\<lambda>i. if 1 < num \<and> i = num - 1 then stop
              else fadd (fscale (fsub stop start) (real i / real (num - 1))) start)
       [0..<num]"

text \<open>
  \<^verbatim>\<open>scipy.interpolate.griddata(points, values, xi, method='linear', fill_value)\<close> triangulates
  the sample points (Delaunay, by Qhull) and evaluates the piecewise linear interpolant at
  the points \<open>xi\<close>; a point outside the convex hull of the sample points gets \<open>fill_value\<close>.
  The model follows the documented behaviour of the library:
  \<^item> no sample point, or a sample point with a NaN coordinate, raises \<^verbatim>\<open>ValueError\<close>;
  \<^item> sample points that do not span the space (no four of them are affinely independent:
    fewer than four points, or all in one plane) have no triangulation, and Qhull raises
    \<^verbatim>\<open>QhullError\<close>;
  \<^item> Qhull works in double precision with a tolerance, and raises the same \<^verbatim>\<open>QhullError\<close>
    for sample points that are not exactly but nearly in one plane (its initial simplex is
    flat). Which point sets it refuses for that reason is left open: it is the component
    \<open>precision_error\<close> of the parameter \<open>lin\<close>;
  \<^item> a point is in the convex hull if and only if it lies in a simplex spanned by four
    affinely independent sample points, which is how \<open>in_hull\<close> decides it, with the
    barycentric coordinates of the point by Cramer's rule;
  \<^item> the value of the interpolant inside the hull depends on the triangulation that Qhull
    builds and is the component \<open>interpolant\<close> of the parameter \<open>lin\<close>.
\<close>

record qhull =
  precision_error :: "point list \<Rightarrow> bool"
  interpolant :: "point list \<Rightarrow> float64 list \<Rightarrow> point \<Rightarrow> float64"

definition vsub :: "point \<Rightarrow> point \<Rightarrow> point" where
  "vsub p q = (fst p - fst q, fst (snd p) - fst (snd q), snd (snd p) - snd (snd q))"

definition det3 :: "point \<Rightarrow> point \<Rightarrow> point \<Rightarrow> real" where
  "det3 u v w =
     (case u of (u1, u2, u3) \<Rightarrow> case v of (v1, v2, v3) \<Rightarrow> case w of (w1, w2, w3) \<Rightarrow>
        u1 * (v2 * w3 - v3 * w2) - u2 * (v1 * w3 - v3 * w1) + u3 * (v1 * w2 - v2 * w1))"

definition in_simplex :: "point \<Rightarrow> point \<Rightarrow> point \<Rightarrow> point \<Rightarrow> point \<Rightarrow> bool" where
  "in_simplex a b c d p =
     (let vol = det3 (vsub b a) (vsub c a) (vsub d a);
          l1 = det3 (vsub p a) (vsub c a) (vsub d a) / vol;
          l2 = det3 (vsub b a) (vsub p a) (vsub d a) / vol;
          l3 = det3 (vsub b a) (vsub c a) (vsub p a) / vol
      in vol \<noteq> 0 \<and> 0 \<le> l1 \<and> 0 \<le> l2 \<and> 0 \<le> l3 \<and> l1 + l2 + l3 \<le> 1)"

definition in_hull :: "point list \<Rightarrow> point \<Rightarrow> bool" where
  "in_hull pts p =
     list_ex (\<lambda>a. list_ex (\<lambda>b. list_ex (\<lambda>c. list_ex (\<lambda>d. in_simplex a b c d p) pts) pts) pts) pts"

definition degenerate :: "point list \<Rightarrow> bool" where
  "degenerate pts =
     (\<not> list_ex (\<lambda>a. list_ex (\<lambda>b. list_ex (\<lambda>c. list_ex (\<lambda>d.
           det3 (vsub b a) (vsub c a) (vsub d a) \<noteq> 0) pts) pts) pts) pts)"

definition finite_point :: "float64 \<times> float64 \<times> float64 \<Rightarrow> point option" where
  "finite_point q =
     (case q of (Some x, Some y, Some z) \<Rightarrow> Some (x, y, z) | _ \<Rightarrow> None)"

definition griddata ::
  "qhull \<Rightarrow> (float64 \<times> float64 \<times> float64) list \<Rightarrow> float64 list
     \<Rightarrow> (float64 \<times> float64 \<times> float64) list \<Rightarrow> real \<Rightarrow> error + float64 list" where
  "griddata lin points values xi fill_value =
     (if points = [] \<or> None \<in> set (map finite_point points) then Inl ValueError
      else let pts = List.map_filter finite_point points
           in if degenerate pts \<or> precision_error lin pts then Inl QhullError
              else Inr (map (\<lambda>q. case finite_point q of
                                    None \<Rightarrow> Some fill_value
                                  | Some p \<Rightarrow> if in_hull pts p then interpolant lin pts values p
                                             else Some fill_value) xi))"

text \<open>An entry of \<^verbatim>\<open>interpolated_grids\<close>: the dictionary with the keys \<^verbatim>\<open>'x'\<close>, \<^verbatim>\<open>'y'\<close>,
  \<^verbatim>\<open>'z'\<close>, \<^verbatim>\<open>'values'\<close> and \<^verbatim>\<open>'z_level'\<close>. A two-dimensional array is the list of its
  rows.\<close>

record slice =
  x_mesh :: "float64 list list"
  y_mesh :: "float64 list list"
  z_mesh :: "float64 list list"
  grid_values :: "float64 list list"
  z_level :: float64

text \<open>\<^verbatim>\<open>np.meshgrid(x_grid, y_grid)\<close>: row \<open>j\<close> of the first array is \<open>x_grid\<close>, row \<open>j\<close> of
  the second repeats entry \<open>j\<close> of \<open>y_grid\<close>. \<^verbatim>\<open>reshape\<close> cuts a flat array into rows.\<close>

definition meshgrid :: "'a list \<Rightarrow> 'a list \<Rightarrow> 'a list list \<times> 'a list list" where
  "meshgrid x_grid y_grid =
     (map (\<lambda>y. x_grid) y_grid, map (\<lambda>y. map (\<lambda>x. y) x_grid) y_grid)"

definition reshape :: "'a list \<Rightarrow> nat \<times> nat \<Rightarrow> 'a list list" where
  "reshape flat shape =
     (case shape of (n_rows, n_cols) \<Rightarrow>
        map (\<lambda>j. map (\<lambda>i. flat ! (j * n_cols + i)) [0..<n_cols]) [0..<n_rows])"

text \<open>The body of the loop over \<^verbatim>\<open>z_grid\<close>, and the loop: an exception of
  \<^verbatim>\<open>griddata\<close> ends it.\<close>

definition interpolate_level ::
  "qhull \<Rightarrow> (float64 \<times> float64 \<times> float64) list \<Rightarrow> float64 list
     \<Rightarrow> float64 list \<Rightarrow> float64 list \<Rightarrow> float64 \<Rightarrow> error + slice" where
  "interpolate_level lin points values x_grid y_grid z =
     (let (xi, yi) = meshgrid x_grid y_grid;
          zi = map (map (\<lambda>_. z)) xi;
          grid_points = zip (concat xi) (zip (concat yi) (concat zi))
      in case griddata lin points values grid_points 0 of
           Inl e \<Rightarrow> Inl e
         | Inr interpolated \<Rightarrow>
             Inr \<lparr>x_mesh = xi, y_mesh = yi, z_mesh = zi,
                  grid_values = reshape interpolated (length y_grid, length x_grid),
                  z_level = z\<rparr>)"

fun interpolate_levels ::
  "qhull \<Rightarrow> (float64 \<times> float64 \<times> float64) list \<Rightarrow> float64 list
     \<Rightarrow> float64 list \<Rightarrow> float64 list \<Rightarrow> float64 list \<Rightarrow> error + slice list" where
  "interpolate_levels lin points values x_grid y_grid [] = Inr []"
| "interpolate_levels lin points values x_grid y_grid (z # z_grid) =
     (case interpolate_level lin points values x_grid y_grid z of
        Inl e \<Rightarrow> Inl e
      | Inr s \<Rightarrow>
          (case interpolate_levels lin points values x_grid y_grid z_grid of
             Inl e \<Rightarrow> Inl e
           | Inr interpolated_grids \<Rightarrow> Inr (s # interpolated_grids)))"

text \<open>\<^verbatim>\<open>interpolate_3d_grid\<close>. \<^verbatim>\<open>np.linspace\<close> raises \<^verbatim>\<open>ValueError\<close> for a negative
  number of points.\<close>

definition interpolate_3d_grid ::
  "qhull \<Rightarrow> 'z processed_scheme list \<Rightarrow> int \<Rightarrow> error + slice list" where
  "interpolate_3d_grid lin df grid_resolution =
     (if grid_resolution < 0 then Inl ValueError
      else let x_min = series_min (map X_mean df); x_max = series_max (map X_mean df);
               y_min = series_min (map Y_mean df); y_max = series_max (map Y_mean df);
               z_min = series_min (map Z_mean df); z_max = series_max (map Z_mean df);
               x_grid = linspace x_min x_max (nat grid_resolution);
               y_grid = linspace y_min y_max (nat grid_resolution);
               z_grid = linspace z_min z_max (nat (grid_resolution div 2));
               points = map (\<lambda>r. (X_mean r, Y_mean r, Z_mean r)) df;
               values = map Moyenne_U_ppm df
           in interpolate_levels lin points values x_grid y_grid z_grid)"

subsection \<open>Notions used to state the properties of the interpolator\<close>

text \<open>The sample points of a table whose midpoint coordinates are all numbers; the \<open>i\<close>-th
  of \<open>num\<close> linearly spaced values that span the range of the values \<open>vs\<close>; the convex hull
  of a list of points, as the set of their convex combinations; the value that the model
  of \<^verbatim>\<open>griddata\<close> gives one lattice point.\<close>

definition sample_points :: "'z processed_scheme list \<Rightarrow> point list" where
  "sample_points df = List.map_filter finite_point (map (\<lambda>r. (X_mean r, Y_mean r, Z_mean r)) df)"








section \<open>Spatial clusterer\<close>


subsection \<open>\<^verbatim>\<open>StandardScaler\<close>\<close>









subsection \<open>\<^verbatim>\<open>DBSCAN\<close>\<close>

text \<open>The neighbourhoods in exact arithmetic: the neighbourhood of a point holds the
  indices of the points within distance \<open>eps\<close> of it, the point itself included, here in
  ascending order.\<close>

definition euclidean :: "real list \<Rightarrow> real list \<Rightarrow> real" where
  "euclidean p q = sqrt (sum_list (map (\<lambda>(a, b). (a - b)\<^sup>2) (zip p q)))"

definition neighborhoods :: "real \<Rightarrow> real list list \<Rightarrow> nat list list" where
  "neighborhoods eps X = map (\<lambda>p. filter (\<lambda>j. euclidean p (X ! j) \<le> eps) [0..<length X]) X"



text \<open>The inner loop of \<^verbatim>\<open>dbscan_inner\<close>: a depth-first traversal from a core sample with an
  explicit stack. A popped point without a label receives the label of the cluster; if it
  is a core sample, its neighbours without a label are pushed. Each step either labels a
  point or shortens the stack, which is why the loop ends.\<close>

lemma unlabelled_decreases:
  assumes "i < length labels" "labels ! i = - 1" "v \<noteq> - 1"
  shows "length (filter (\<lambda>l. l = - 1) (labels[i := v])) < length (filter (\<lambda>l. l = - 1) labels)"
  using assms(1,2)
proof (induction labels arbitrary: i)
  case Nil
  then show ?case by simp
next
  case (Cons l labels)
  show ?case
  proof (cases i)
    case 0
    with Cons.prems assms(3) show ?thesis by simp
  next
    case (Suc j)
    with Cons.prems have "length (filter (\<lambda>l. l = - 1) (labels[j := v]))
                            < length (filter (\<lambda>l. l = - 1) labels)"
      by (intro Cons.IH) simp_all
    with Suc show ?thesis by simp
  qed
qed

function dbscan_expand ::
  "bool list \<Rightarrow> nat list list \<Rightarrow> nat \<Rightarrow> int list \<Rightarrow> nat list \<Rightarrow> int list" where
  "dbscan_expand is_core nbs label_num labels [] = labels"
| "dbscan_expand is_core nbs label_num labels (i # stack) =
     (if i < length labels \<and> labels ! i = - 1
      then dbscan_expand is_core nbs label_num (labels[i := int label_num])
             (if is_core ! i
              then rev (filter (\<lambda>v. labels[i := int label_num] ! v = - 1) (nbs ! i)) @ stack
              else stack)
      else dbscan_expand is_core nbs label_num labels stack)"
  by pat_completeness auto
termination
proof (relation "measures [\<lambda>(is_core, nbs, label_num, labels, stack). length (filter (\<lambda>l. l = - 1) labels),
                           \<lambda>(is_core, nbs, label_num, labels, stack). length stack]")
  show "wf (measures [\<lambda>(is_core, nbs, label_num, labels, stack). length (filter (\<lambda>l. l = - 1) labels),
                           \<lambda>(is_core, nbs, label_num, labels, stack). length stack])"
    by simp
next
  fix is_core :: "bool list" and nbs :: "nat list list" and label_num :: nat
    and labels :: "int list" and i :: nat and stack :: "nat list"
  assume a: "i < length labels \<and> labels ! i = - 1"
  have "length (filter (\<lambda>l. l = - 1) (labels[i := int label_num]))
          < length (filter (\<lambda>l. l = - 1) labels)"
    using a by (intro unlabelled_decreases) simp_all
  then show "((is_core, nbs, label_num, labels[i := int label_num],
               if is_core ! i
               then rev (filter (\<lambda>v. labels[i := int label_num] ! v = - 1) (nbs ! i)) @ stack
               else stack),
              is_core, nbs, label_num, labels, i # stack)
             \<in> measures [\<lambda>(is_core, nbs, label_num, labels, stack). length (filter (\<lambda>l. l = - 1) labels),
                           \<lambda>(is_core, nbs, label_num, labels, stack). length stack]"
    by simp
next
  fix is_core :: "bool list" and nbs :: "nat list list" and label_num :: nat
    and labels :: "int list" and i :: nat and stack :: "nat list"
  show "((is_core, nbs, label_num, labels, stack), is_core, nbs, label_num, labels, i # stack)
             \<in> measures [\<lambda>(is_core, nbs, label_num, labels, stack). length (filter (\<lambda>l. l = - 1) labels),
                           \<lambda>(is_core, nbs, label_num, labels, stack). length stack]"
    by simp
qed

text \<open>The outer loop of \<^verbatim>\<open>dbscan_inner\<close>: every core sample without a label starts the next
  cluster.\<close>

fun dbscan_inner :: "bool list \<Rightarrow> nat list list \<Rightarrow> nat list \<Rightarrow> nat \<Rightarrow> int list \<Rightarrow> int list" where
  "dbscan_inner is_core nbs [] label_num labels = labels"
| "dbscan_inner is_core nbs (i # rest) label_num labels =
     (if labels ! i \<noteq> - 1 \<or> \<not> is_core ! i
      then dbscan_inner is_core nbs rest label_num labels
      else dbscan_inner is_core nbs rest (label_num + 1)
             (dbscan_expand is_core nbs label_num labels [i]))"


subsection \<open>The operation\<close>



subsection \<open>Notions used to state the properties of the clusterer\<close>

text \<open>The neighbours of a point within a radius, core points, and density-reachability
  from a core point: a chain of points, each in the neighbourhood of the one before, all
  but the last of which are core points.\<close>

definition eps_neighbours :: "real list list \<Rightarrow> real \<Rightarrow> nat \<Rightarrow> nat set" where
  "eps_neighbours X eps i = {j. j < length X \<and> euclidean (X ! i) (X ! j) \<le> eps}"

definition core_point :: "real list list \<Rightarrow> real \<Rightarrow> int \<Rightarrow> nat \<Rightarrow> bool" where
  "core_point X eps min_samples i \<longleftrightarrow>
     i < length X \<and> min_samples \<le> int (card (eps_neighbours X eps i))"

inductive density_reachable :: "real list list \<Rightarrow> real \<Rightarrow> int \<Rightarrow> nat \<Rightarrow> nat \<Rightarrow> bool"
  for X :: "real list list" and eps :: real and min_samples :: int where
  direct: "core_point X eps min_samples c \<Longrightarrow> j \<in> eps_neighbours X eps c
             \<Longrightarrow> density_reachable X eps min_samples c j"
| chain: "density_reachable X eps min_samples c j \<Longrightarrow> core_point X eps min_samples j
             \<Longrightarrow> k \<in> eps_neighbours X eps j \<Longrightarrow> density_reachable X eps min_samples c k"










section \<open>Concrete inputs\<close>

text \<open>A preprocessed row with mean grade \<open>g\<close> and volume proxy \<open>v\<close>; the other columns are
  those of one fixed anomaly.\<close>

definition sample_row :: "real \<Rightarrow> float64 \<Rightarrow> processed" where
  "sample_row g v =
     \<lparr>N_Anomalie = Num 1, N_Tranche = Num 1,
      Debut_EUTM = Some 500000, Debut_NUTM = Some 4500000,
      Fin_EUTM = Some 500050, Fin_NUTM = Some 4500050,
      Direction = Some 90, Longueur_m = Some 100, de_m = Some 0, a_m = Some 50,
      Epaisseur_m = Some 2, Moyenne_U_ppm = Some g, Max_U_ppm = Some (g + 5),
      Lithologie = ''Granite'',
      X_mean = Some 500025, Y_mean = Some 4500025, Z_mean = Some 25,
      Lithologie_encoded = 0, Volume_approx = v, Gradient_U = Some 5\<rparr>"

text \<open>Three rows with mean grades 10, 40 and 60; the volume proxy of the third is NaN.\<close>

definition scenario_A :: "processed list" where
  "scenario_A = [sample_row 10 (Some 100), sample_row 40 (Some 200), sample_row 60 None]"

text \<open>Eight rows: seven of grade 40, the first of them with a volume proxy of \<open>10 * 2\<^sup>4\<^sup>9\<close> and
  the others of 10, followed by one row of grade 10 with a volume proxy of \<open>10 / 32\<close>. The
  tonnages are \<open>27 * 2\<^sup>4\<^sup>9\<close>, six times 27, and \<open>27 / 32\<close>, all of them doubles.\<close>

definition rounding_table :: "processed list" where
  "rounding_table =
     sample_row 40 (Some (10 * 2 ^ 49)) # replicate 6 (sample_row 40 (Some 10))
       @ [sample_row 10 (Some (10 / 32))]"

text \<open>A raw frame of four rows: a coordinate written as a string, a missing length, a
  missing lithology, and a row whose mean grade cannot be read.\<close>

definition parse_demo :: "string \<Rightarrow> float64" where
  "parse_demo s = (if s = ''500000'' then Some 500000 else None)"

definition raw_row_demo ::
  "raw_cell \<Rightarrow> raw_cell \<Rightarrow> raw_cell \<Rightarrow> string option \<Rightarrow> (raw_cell, string option) anomaly" where
  "raw_row_demo e l g lith =
     \<lparr>N_Anomalie = Num 1, N_Tranche = Num 1,
      Debut_EUTM = e, Debut_NUTM = Num 4500000,
      Fin_EUTM = Num 500050, Fin_NUTM = Num 4500050,
      Direction = Num 90, Longueur_m = l, de_m = Num 0, a_m = Num 50,
      Epaisseur_m = Num 2, Moyenne_U_ppm = g, Max_U_ppm = Num 80,
      Lithologie = lith\<rparr>"

definition raw_demo :: raw_frame where
  "raw_demo =
     \<lparr>rows = [raw_row_demo (Str ''500000'') Missing (Num 45) (Some ''Schiste''),
               raw_row_demo (Num 500100) (Num 100) (Num 67) None,
               raw_row_demo (Num 500200) (Num 120) (Str ''n/a'') (Some ''Gneiss''),
               raw_row_demo (Num 500300) (Num 200) (Num 52) (Some ''Granite'')],
      Lithologie_present = True\<rparr>"

text \<open>A stream of draws: the uniform samples are 0 for row 0 and one half for the other
  rows, the normal samples are all \<open>- 20\<close>.\<close>

definition half_draws :: draws where
  "half_draws = \<lparr>unif = (\<lambda>k i. if i = 0 then 0 else 1 / 2), gauss = (\<lambda>i. - 20),
                  choice_index = (\<lambda>i. i mod 4), tranche = (\<lambda>i. 1 + int (i mod 19))\<rparr>"

text \<open>A learner that predicts the mean target of its training set, a permutation and a
  table of two rows.\<close>

definition mean_learner :: "real learner" where
  "mean_learner =
     \<lparr>fit = (\<lambda>train. if None \<in> set (map snd train) \<or> None \<in> set (concat (map fst train))
                      then Inl ValueError
                      else Inr (sum_list (present (map snd train)) / real (length train))),
      predict = (\<lambda>m xs. Inr (replicate (length xs) m)),
      feature_importances = (\<lambda>m. replicate 7 0)\<rparr>"

definition rev_permutation :: "nat \<Rightarrow> nat list" where
  "rev_permutation n = rev [0..<n]"

definition two_rows :: "processed list" where
  "two_rows = [sample_row 40 (Some 100), sample_row 60 (Some 200)]"

text \<open>A preprocessed row with a given midpoint and mean grade; four rows whose midpoints span
  a tetrahedron; four rows at the same depth; a triangulation that reports no precision
  error and has an interpolant that is 1 everywhere.\<close>

definition point_row :: "real \<Rightarrow> real \<Rightarrow> real \<Rightarrow> real \<Rightarrow> processed" where
  "point_row px py pz g =
     (sample_row g (Some 200))\<lparr>X_mean := Some px, Y_mean := Some py, Z_mean := Some pz\<rparr>"


definition flat_table :: "processed list" where
  "flat_table = [point_row 0 0 5 10, point_row 2 0 5 20, point_row 0 2 5 30, point_row 2 2 5 40]"

definition const_lin :: qhull where
  "const_lin = \<lparr>precision_error = (\<lambda>pts. False), interpolant = (\<lambda>pts vals p. Some 1)\<rparr>"


section \<open>Properties of the reserve calculator\<close>

lemma present_Nil: "present [] = []"
  by (simp add: present_def)

lemma present_Cons:
  "present (c # cs) = (case c of None \<Rightarrow> present cs | Some x \<Rightarrow> x # present cs)"
  by (simp add: present_def split: option.splits)

lemma ore_data_eq:
  "snd (calculate_ore_reserves df c) = map add_tonnage (filter (\<lambda>r. fge (Moyenne_U_ppm r) c) df)"
  by (simp add: calculate_ore_reserves_def Let_def)

lemma fge_iff: "fge a c \<longleftrightarrow> (\<exists>g. a = Some g \<and> c \<le> g)"
  by (simp add: fge_def split: option.splits)

lemma fge_mono: "c1 \<le> c2 \<Longrightarrow> fge a c2 \<Longrightarrow> fge a c1"
  by (auto simp: fge_def split: option.splits)

text \<open>
  Claim C1. For every table and cutoff grade, the ore subset returned by
  \<open>calculate_ore_reserves\<close> consists of exactly the rows whose mean grade is a number at least
  the cutoff, in the order of the table; the tonnage of an ore row is its volume proxy times
  2.7 and its metal content is its tonnage times its mean grade divided by \<open>10\<^sup>6\<close> (both NaN
  when the volume proxy is NaN); the ore-block count is the number of ore rows. For a table
  of three rows with mean grades 10, 40 and 60 and cutoff 30, the ore subset is the rows with
  grades 40 and 60 and the ore-block count is 2.
\<close>

theorem calculate_ore_reserves_ore_subset:
  "map base (snd (calculate_ore_reserves df c))
     = filter (\<lambda>r. \<exists>g. Moyenne_U_ppm r = Some g \<and> c \<le> g) df
   \<and> (\<forall>r \<in> set (snd (calculate_ore_reserves df c)).
         Tonnage r = map_option (\<lambda>v. v * 2.7) (Volume_approx (base r))
       \<and> (\<exists>g. Moyenne_U_ppm (base r) = Some g \<and> c \<le> g
              \<and> Metal_content r = map_option (\<lambda>t. t * g / 1000000) (Tonnage r)))
   \<and> ore_blocks (fst (calculate_ore_reserves df c)) = length (snd (calculate_ore_reserves df c))
   \<and> (map Moyenne_U_ppm df = [Some 10, Some 40, Some 60] \<longrightarrow>
         map (\<lambda>r. Moyenne_U_ppm (base r)) (snd (calculate_ore_reserves df 30)) = [Some 40, Some 60]
       \<and> ore_blocks (fst (calculate_ore_reserves df 30)) = 2)"
proof (intro conjI ballI impI)
  show "map base (snd (calculate_ore_reserves df c))
     = filter (\<lambda>r. \<exists>g. Moyenne_U_ppm r = Some g \<and> c \<le> g) df"
    by (simp add: ore_data_eq add_tonnage_def Let_def comp_def fge_iff)
next
  fix r assume "r \<in> set (snd (calculate_ore_reserves df c))"
  then obtain b where b: "r = add_tonnage b" "fge (Moyenne_U_ppm b) c"
    by (auto simp: ore_data_eq)
  show "Tonnage r = map_option (\<lambda>v. v * 2.7) (Volume_approx (base r))"
    by (simp add: b add_tonnage_def Let_def fscale_def)
  from b(2) obtain g where g: "Moyenne_U_ppm b = Some g" "c \<le> g"
    by (auto simp: fge_iff)
  show "\<exists>g. Moyenne_U_ppm (base r) = Some g \<and> c \<le> g
              \<and> Metal_content r = map_option (\<lambda>t. t * g / 1000000) (Tonnage r)"
    using g by (simp add: b add_tonnage_def Let_def fdivc_def fmul_def split: option.splits)
next
  show "ore_blocks (fst (calculate_ore_reserves df c)) = length (snd (calculate_ore_reserves df c))"
    by (simp add: calculate_ore_reserves_def Let_def)
next
  assume a: "map Moyenne_U_ppm df = [Some 10, Some 40, Some 60]"
  then obtain r1 r2 r3 where df: "df = [r1, r2, r3]"
    "Moyenne_U_ppm r1 = Some 10" "Moyenne_U_ppm r2 = Some 40" "Moyenne_U_ppm r3 = Some 60"
    by (auto simp: map_eq_Cons_conv)
  show "map (\<lambda>r. Moyenne_U_ppm (base r)) (snd (calculate_ore_reserves df 30)) = [Some 40, Some 60]"
    by (simp add: ore_data_eq df fge_def add_tonnage_def Let_def)
  show "ore_blocks (fst (calculate_ore_reserves df 30)) = 2"
    by (simp add: calculate_ore_reserves_def df fge_def Let_def)
qed

theorem calculate_ore_reserves_ore_subset_witness:
  "map Moyenne_U_ppm scenario_A = [Some 10, Some 40, Some 60]
   \<and> map base (snd (calculate_ore_reserves scenario_A 30))
       = [sample_row 40 (Some 200), sample_row 60 None]
   \<and> map Tonnage (snd (calculate_ore_reserves scenario_A 30)) = [Some 540, None]
   \<and> map Metal_content (snd (calculate_ore_reserves scenario_A 30))
       = [Some (540 * 40 / 1000000), None]
   \<and> ore_blocks (fst (calculate_ore_reserves scenario_A 30)) = 2"
proof -
  have h: "map Moyenne_U_ppm scenario_A = [Some 10, Some 40, Some 60]"
    by (simp add: scenario_A_def sample_row_def)
  have s: "filter (\<lambda>r. \<exists>g. Moyenne_U_ppm r = Some g \<and> 30 \<le> g) scenario_A
             = [sample_row 40 (Some 200), sample_row 60 None]"
    by (simp add: scenario_A_def sample_row_def)
  note t = calculate_ore_reserves_ore_subset [of scenario_A 30]
  from t have b: "map base (snd (calculate_ore_reserves scenario_A 30))
                    = [sample_row 40 (Some 200), sample_row 60 None]"
    using s by simp
  then obtain o1 o2 where o: "snd (calculate_ore_reserves scenario_A 30) = [o1, o2]"
     "base o1 = sample_row 40 (Some 200)" "base o2 = sample_row 60 None"
    by (auto simp: map_eq_Cons_conv)
  from t o have "Tonnage o1 = Some 540" "Tonnage o2 = None"
    "Metal_content o1 = Some (540 * 40 / 1000000)" "Metal_content o2 = None"
    by (auto simp: sample_row_def)
  with t h b o show ?thesis by simp
qed

subsection \<open>Rounding to the nearest double\<close>

text \<open>The binary exponent brackets its argument.\<close>

lemma log2_floor_bounds:
  "1 \<le> k \<Longrightarrow> 0 \<le> log2_floor k \<and> 2 ^ nat (log2_floor k) \<le> k \<and> k < 2 * 2 ^ nat (log2_floor k)"
proof (induction k rule: log2_floor.induct)
  case (1 k)
  show ?case
  proof (cases "k < 2")
    case True
    with 1(2) have "k = 1" by simp
    then show ?thesis by (simp add: log2_floor.simps)
  next
    case False
    then have "1 \<le> k div 2" by simp
    from 1(1) [OF False this]
    have ih: "0 \<le> log2_floor (k div 2)" "2 ^ nat (log2_floor (k div 2)) \<le> k div 2"
      "k div 2 < 2 * 2 ^ nat (log2_floor (k div 2))"
      by simp_all
    have l: "log2_floor k = 1 + log2_floor (k div 2)"
      using False by (subst log2_floor.simps) simp
    have n: "nat (log2_floor k) = Suc (nat (log2_floor (k div 2)))"
      using ih(1) by (simp add: l)
    have "2 * (k div 2) \<le> k" "k \<le> 2 * (k div 2) + 1" by simp_all
    with ih show ?thesis unfolding n by (simp add: l)
  qed
qed

lemma exponent_bounds:
  assumes "x \<noteq> 0"
  shows "2 powi (exponent x) \<le> \<bar>x\<bar>" and "\<bar>x\<bar> < 2 powi (exponent x + 1)"
proof -
  have "2 powi (exponent x) \<le> \<bar>x\<bar> \<and> \<bar>x\<bar> < 2 powi (exponent x + 1)"
  proof (cases "1 \<le> \<bar>x\<bar>")
    case True
    define k where "k = \<lfloor>\<bar>x\<bar>\<rfloor>"
    define L where "L = nat (log2_floor k)"
    have k: "1 \<le> k" using True by (simp add: k_def le_floor_iff)
    from log2_floor_bounds [OF k]
    have b: "log2_floor k = int L" "2 ^ L \<le> k" "k < 2 * 2 ^ L"
      by (simp_all add: L_def)
    have e: "exponent x = int L" using True by (simp add: exponent_def k_def [symmetric] b(1))
    have f: "real_of_int k \<le> \<bar>x\<bar>" "\<bar>x\<bar> < real_of_int k + 1" by (simp_all add: k_def)
    have lo: "(2 :: real) ^ L \<le> real_of_int k"
      using b(2) by (metis of_int_le_iff of_int_numeral of_int_power)
    have hi: "real_of_int k + 1 \<le> 2 * 2 ^ L"
    proof -
      have "k + 1 \<le> 2 * 2 ^ L" using b(3) by simp
      then have "real_of_int (k + 1) \<le> real_of_int (2 * 2 ^ L)" by (simp only: of_int_le_iff)
      then show ?thesis by simp
    qed
    have p1: "(2 :: real) powi (exponent x) = 2 ^ L" by (simp add: e)
    have p2: "(2 :: real) powi (exponent x + 1) = 2 * 2 ^ L" by (simp add: e power_int_add)
    show ?thesis unfolding p1 p2 using f lo hi by linarith
  next
    case False
    define y where "y = 1 / \<bar>x\<bar>"
    define c where "c = \<lceil>y\<rceil> - 1"
    define L where "L = nat (log2_floor c)"
    have x: "0 < \<bar>x\<bar>" "\<bar>x\<bar> < 1" using assms False by simp_all
    then have y: "1 < y" by (simp add: y_def)
    then have c: "1 \<le> c" by (simp add: c_def less_ceiling_iff)
    from log2_floor_bounds [OF c]
    have b: "log2_floor c = int L" "2 ^ L \<le> c" "c < 2 * 2 ^ L"
      by (simp_all add: L_def)
    have e: "exponent x = - (1 + int L)"
      using False by (simp add: exponent_def y_def [symmetric] c_def [symmetric] b(1))
    have cy: "real_of_int c < y" "y \<le> real_of_int c + 1"
      unfolding c_def by linarith+
    have lo: "(2 :: real) ^ L \<le> real_of_int c"
      using b(2) by (metis of_int_le_iff of_int_numeral of_int_power)
    have hi: "real_of_int c + 1 \<le> 2 * 2 ^ L"
    proof -
      have "c + 1 \<le> 2 * 2 ^ L" using b(3) by simp
      then have "real_of_int (c + 1) \<le> real_of_int (2 * 2 ^ L)" by (simp only: of_int_le_iff)
      then show ?thesis by simp
    qed
    have ax: "\<bar>x\<bar> = 1 / y" using x by (simp add: y_def)
    have p: "(0 :: real) < 2 ^ L" by simp
    have y1: "y \<le> 2 * 2 ^ L" "2 ^ L < y" using cy lo hi by linarith+
    have a1: "1 / (2 * 2 ^ L) \<le> 1 / y"
      using y1(1) y by (intro divide_left_mono) simp_all
    have a2: "1 / y < 1 / 2 ^ L"
      using y1(2) y p by (intro divide_strict_left_mono) simp_all
    have q: "(2 :: real) powi (int L + 1) = 2 * 2 ^ L" by (simp add: power_int_add)
    have e1: "exponent x = - (int L + 1)" "exponent x + 1 = - int L" using e by simp_all
    have p1: "2 powi (exponent x) = 1 / (2 * 2 ^ L :: real)"
      unfolding e1(1) power_int_minus_divide q ..
    have p2: "2 powi (exponent x + 1) = 1 / (2 ^ L :: real)"
      unfolding e1(2) power_int_minus_divide by simp
    show ?thesis unfolding p1 p2 ax using a1 a2 by simp
  qed
  then show "2 powi (exponent x) \<le> \<bar>x\<bar>" and "\<bar>x\<bar> < 2 powi (exponent x + 1)" by simp_all
qed

text \<open>Rounding is monotone and leaves a double as it is, on the numbers that are not
  negative.\<close>

lemma round_half_even_bounds:
  "x - 1 / 2 \<le> of_int (round_half_even x)" "of_int (round_half_even x) \<le> x + 1 / 2"
proof -
  define d where "d = x - of_int \<lfloor>x\<rfloor>"
  have f: "real_of_int \<lfloor>x\<rfloor> = x - d" "0 \<le> d" "d < 1" unfolding d_def by linarith+
  have r: "round_half_even x
             = (if d < 1 / 2 then \<lfloor>x\<rfloor> else if 1 / 2 < d then \<lfloor>x\<rfloor> + 1
                else if even \<lfloor>x\<rfloor> then \<lfloor>x\<rfloor> else \<lfloor>x\<rfloor> + 1)"
    by (simp only: round_half_even_def Let_def d_def)
  show "x - 1 / 2 \<le> of_int (round_half_even x)"
    unfolding r using f by (auto split: if_splits)
  show "of_int (round_half_even x) \<le> x + 1 / 2"
    unfolding r using f by (auto split: if_splits)
qed

lemma round_half_even_of_int: "round_half_even (of_int k) = k"
  by (simp add: round_half_even_def)

lemma round_half_even_mono:
  assumes "a \<le> b"
  shows "round_half_even a \<le> round_half_even b"
proof (rule ccontr)
  assume "\<not> round_half_even a \<le> round_half_even b"
  then have "round_half_even b + 1 \<le> round_half_even a" by simp
  then have "real_of_int (round_half_even b + 1) \<le> real_of_int (round_half_even a)"
    by (simp only: of_int_le_iff)
  then have c: "real_of_int (round_half_even b) + 1 \<le> real_of_int (round_half_even a)" by simp
  have "b \<le> a"
    using c round_half_even_bounds(2) [of a] round_half_even_bounds(1) [of b] by linarith
  with assms have "a = b" by simp
  with \<open>\<not> round_half_even a \<le> round_half_even b\<close> show False by simp
qed

lemma exponent_mono:
  assumes "0 < x" "x \<le> y"
  shows "exponent x \<le> exponent y"
proof (rule ccontr)
  assume "\<not> exponent x \<le> exponent y"
  then have "exponent y + 1 \<le> exponent x" by simp
  then have "(2 :: real) powi (exponent y + 1) \<le> 2 powi (exponent x)"
    by (intro power_int_increasing) simp_all
  moreover have "2 powi (exponent x) \<le> x" "y < 2 powi (exponent y + 1)"
    using exponent_bounds [of x] exponent_bounds [of y] assms by simp_all
  ultimately show False using assms(2) by linarith
qed

lemma ulp_pos: "0 < ulp x"
  by (simp add: ulp_def)

lemma ulp_times: "ulp x * 2 ^ 53 = 2 powi (max (exponent x) (- 1022) + 1)"
proof -
  have "max (exponent x) (- 1022) + 1 = (max (exponent x) (- 1022) - 52) + 53" by linarith
  then have "(2 :: real) powi (max (exponent x) (- 1022) + 1)
          = 2 powi ((max (exponent x) (- 1022) - 52) + 53)"
    by (rule arg_cong)
  also have "\<dots> = 2 powi (max (exponent x) (- 1022) - 52) * 2 powi 53"
    by (rule power_int_add) simp
  finally show ?thesis by (simp add: ulp_def)
qed

lemma ulp_times': "ulp x * 2 ^ 52 = 2 powi (max (exponent x) (- 1022))"
proof -
  have "max (exponent x) (- 1022) = (max (exponent x) (- 1022) - 52) + 52" by linarith
  then have "(2 :: real) powi (max (exponent x) (- 1022))
          = 2 powi ((max (exponent x) (- 1022) - 52) + 52)"
    by (rule arg_cong)
  also have "\<dots> = 2 powi (max (exponent x) (- 1022) - 52) * 2 powi 52"
    by (rule power_int_add) simp
  finally show ?thesis by (simp add: ulp_def)
qed

lemma round_double_nonneg:
  assumes "0 \<le> x"
  shows "0 \<le> round_double x"
proof (cases "x = 0")
  case True
  then show ?thesis by (simp add: round_double_def)
next
  case False
  have "0 \<le> x / ulp x" using assms ulp_pos [of x] by simp
  then have "round_half_even 0 \<le> round_half_even (x / ulp x)" by (rule round_half_even_mono)
  then have "0 \<le> round_half_even (x / ulp x)"
    using round_half_even_of_int [of 0] by simp
  then show ?thesis using False ulp_pos [of x] by (simp add: round_double_def)
qed

lemma round_double_upper:
  assumes "0 < x"
  shows "round_double x \<le> 2 powi (max (exponent x) (- 1022) + 1)"
proof -
  let ?E = "max (exponent x) (- 1022)"
  have "x < 2 powi (exponent x + 1)" using exponent_bounds(2) [of x] assms by simp
  also have "\<dots> \<le> 2 powi (?E + 1)" by (intro power_int_increasing) simp_all
  also have "\<dots> = ulp x * 2 ^ 53" by (rule ulp_times [symmetric])
  finally have "x / ulp x < 2 ^ 53" using ulp_pos [of x] by (simp add: field_simps)
  then have "x / ulp x \<le> real_of_int (2 ^ 53)" by simp
  then have "round_half_even (x / ulp x) \<le> round_half_even (real_of_int (2 ^ 53))"
    by (rule round_half_even_mono)
  then have "round_half_even (x / ulp x) \<le> 2 ^ 53" by (simp only: round_half_even_of_int)
  then have "real_of_int (round_half_even (x / ulp x)) \<le> real_of_int (2 ^ 53)"
    by (simp only: of_int_le_iff)
  then have "real_of_int (round_half_even (x / ulp x)) * ulp x \<le> 2 ^ 53 * ulp x"
    using ulp_pos [of x] by (intro mult_right_mono) simp_all
  then show ?thesis using assms by (simp add: round_double_def ulp_times [symmetric] mult.commute)
qed

lemma round_double_lower:
  assumes "0 < x" "- 1022 \<le> exponent x"
  shows "2 powi (exponent x) \<le> round_double x"
proof -
  have m: "max (exponent x) (- 1022) = exponent x" using assms(2) by simp
  have "ulp x * 2 ^ 52 = 2 powi (exponent x)" using ulp_times' [of x] by (simp only: m)
  moreover have "2 powi (exponent x) \<le> x" using exponent_bounds(1) [of x] assms by simp
  ultimately have "real_of_int (2 ^ 52) \<le> x / ulp x"
    using ulp_pos [of x] by (simp add: field_simps)
  then have "round_half_even (real_of_int (2 ^ 52)) \<le> round_half_even (x / ulp x)"
    by (rule round_half_even_mono)
  then have "2 ^ 52 \<le> round_half_even (x / ulp x)" by (simp only: round_half_even_of_int)
  then have "real_of_int (2 ^ 52) \<le> real_of_int (round_half_even (x / ulp x))"
    by (simp only: of_int_le_iff)
  then have "2 ^ 52 * ulp x \<le> real_of_int (round_half_even (x / ulp x)) * ulp x"
    using ulp_pos [of x] by (intro mult_right_mono) simp_all
  then show ?thesis
    using assms(1) \<open>ulp x * 2 ^ 52 = 2 powi (exponent x)\<close>
    by (simp add: round_double_def mult.commute)
qed

lemma round_double_mono:
  assumes "0 \<le> x" "x \<le> y"
  shows "round_double x \<le> round_double y"
proof (cases "x = 0")
  case True
  then show ?thesis using round_double_nonneg [of y] assms by (simp add: round_double_def)
next
  case False
  then have x: "0 < x" and y: "0 < y" using assms by simp_all
  have e: "exponent x \<le> exponent y" using x assms(2) by (rule exponent_mono)
  show ?thesis
  proof (cases "max (exponent x) (- 1022) = max (exponent y) (- 1022)")
    case True
    then have u: "ulp x = ulp y" by (simp add: ulp_def)
    have "x / ulp y \<le> y / ulp y" using assms(2) ulp_pos [of y] by (simp add: divide_right_mono)
    then have "round_half_even (x / ulp y) \<le> round_half_even (y / ulp y)"
      by (rule round_half_even_mono)
    then have "real_of_int (round_half_even (x / ulp y)) * ulp y
                 \<le> real_of_int (round_half_even (y / ulp y)) * ulp y"
      using ulp_pos [of y] by (intro mult_right_mono) simp_all
    then show ?thesis using x y by (simp add: round_double_def u)
  next
    case False
    with e have lt: "max (exponent x) (- 1022) + 1 \<le> exponent y" and ey: "- 1022 \<le> exponent y"
      by (simp_all add: max_def split: if_splits)
    have "round_double x \<le> 2 powi (max (exponent x) (- 1022) + 1)"
      using x by (rule round_double_upper)
    also have "\<dots> \<le> 2 powi (exponent y)" using lt by (intro power_int_increasing) simp_all
    also have "\<dots> \<le> round_double y" using y ey by (rule round_double_lower)
    finally show ?thesis .
  qed
qed

lemma round_double_multiple:
  assumes "x = real_of_int j * ulp x"
  shows "round_double x = x"
proof (cases "x = 0")
  case True
  then show ?thesis by (simp add: round_double_def)
next
  case False
  have "x / ulp x = real_of_int j" using assms ulp_pos [of x] by (simp add: field_simps)
  then have "round_half_even (x / ulp x) = j" by (simp only: round_half_even_of_int)
  then show ?thesis using False assms by (simp add: round_double_def)
qed

lemma round_double_idem:
  assumes "0 \<le> x"
  shows "round_double (round_double x) = round_double x"
proof (cases "round_double x = 0")
  case True
  then show ?thesis by (simp add: round_double_def)
next
  case False
  define r where "r = round_double x"
  define k where "k = round_half_even (x / ulp x)"
  define E where "E = max (exponent x) (- 1022)"
  have x: "0 < x" using False assms by (cases "x = 0") (simp_all add: round_double_def)
  have r: "r = real_of_int k * ulp x" using x by (simp add: r_def k_def round_double_def)
  have rpos: "0 < r" using False round_double_nonneg [OF assms] by (simp add: r_def)
  have up: "r \<le> 2 powi (E + 1)" unfolding r_def E_def using x by (rule round_double_upper)
  have u: "ulp x = 2 powi (E - 52)" by (simp add: ulp_def E_def)
  have "\<exists>j. r = real_of_int j * ulp r"
  proof (cases "exponent r \<le> E")
    case True
    then have m: "max (exponent r) (- 1022) \<le> E" by (simp add: E_def)
    define n where "n = nat (E - max (exponent r) (- 1022))"
    have "E - 52 = (max (exponent r) (- 1022) - 52) + int n" using m by (simp add: n_def)
    then have "(2 :: real) powi (E - 52) = 2 powi ((max (exponent r) (- 1022) - 52) + int n)"
      by (rule arg_cong)
    also have "\<dots> = 2 powi (max (exponent r) (- 1022) - 52) * 2 powi (int n)"
      by (rule power_int_add) simp
    finally have "ulp x = ulp r * 2 ^ n" unfolding u [symmetric] by (simp add: ulp_def)
    then have "real_of_int k * ulp x = real_of_int k * (ulp r * 2 ^ n)" by (rule arg_cong)
    with r have "r = real_of_int k * (ulp r * 2 ^ n)" by (rule trans)
    also have "\<dots> = real_of_int (k * 2 ^ n) * ulp r" by simp
    finally show ?thesis ..
  next
    case False
    then have lt: "E + 1 \<le> exponent r" by simp
    have "(2 :: real) powi (E + 1) \<le> 2 powi (exponent r)"
      using lt by (intro power_int_increasing) simp_all
    also have "\<dots> \<le> r" using exponent_bounds(1) [of r] rpos by simp
    finally have eq: "r = 2 powi (E + 1)" using up by simp
    have "exponent r \<le> E + 1"
    proof (rule ccontr)
      assume "\<not> exponent r \<le> E + 1"
      then have "E + 2 \<le> exponent r" by simp
      then have "(2 :: real) powi (E + 2) \<le> 2 powi (exponent r)"
        by (intro power_int_increasing) simp_all
      also have "\<dots> \<le> r" using exponent_bounds(1) [of r] rpos by simp
      finally have "(2 :: real) powi (E + 2) \<le> 2 powi (E + 1)" using eq by simp
      moreover have "(2 :: real) powi (E + 1) < 2 powi (E + 2)"
        by (intro power_int_strict_increasing) simp_all
      ultimately show False by simp
    qed
    with lt have e: "exponent r = E + 1" by simp
    have "- 1022 \<le> E" by (simp add: E_def)
    then have m: "max (exponent r) (- 1022) = E + 1" by (simp add: e)
    have "ulp r * 2 ^ 52 = 2 powi (E + 1)" using ulp_times' [of r] by (simp only: m)
    then have "r = real_of_int (2 ^ 52) * ulp r" by (simp add: eq mult.commute)
    then show ?thesis ..
  qed
  then obtain j where "r = real_of_int j * ulp r" ..
  then have "round_double r = r" by (rule round_double_multiple)
  then show ?thesis by (simp add: r_def)
qed

lemma dadd_grows:
  assumes "0 \<le> a" "round_double a = a" "0 \<le> x"
  shows "a \<le> dadd a x"
proof -
  have "round_double a \<le> round_double (a + x)" using assms by (intro round_double_mono) simp_all
  then show ?thesis by (simp add: dadd_def assms(2))
qed

lemma fold_dadd_sublist:
  fixes w :: "'a \<Rightarrow> real"
  assumes "\<forall>r \<in> set rs. 0 \<le> w r" and "\<forall>r. P2 r \<longrightarrow> P1 r"
    and "0 \<le> a" "a \<le> a'" "round_double a' = a'"
  shows "fold (\<lambda>x res. dadd res x) (map w (filter P2 rs)) a
       \<le> fold (\<lambda>x res. dadd res x) (map w (filter P1 rs)) a'"
  using assms(1,3,4,5)
proof (induction rs arbitrary: a a')
  case Nil
  then show ?case by simp
next
  case (Cons r rs)
  then have w: "0 \<le> w r" and rest: "\<forall>r \<in> set rs. 0 \<le> w r" by simp_all
  show ?case
  proof (cases "P2 r")
    case True
    with assms(2) have p1: "P1 r" by blast
    have "0 \<le> dadd a (w r)" unfolding dadd_def using Cons.prems(2) w by (intro round_double_nonneg) simp
    moreover have "dadd a (w r) \<le> dadd a' (w r)"
      unfolding dadd_def using Cons.prems(2,3) w by (intro round_double_mono) simp_all
    moreover have "round_double (dadd a' (w r)) = dadd a' (w r)"
      unfolding dadd_def using Cons.prems(2,3) w by (intro round_double_idem) simp
    ultimately show ?thesis using True p1 Cons.IH [OF rest] by simp
  next
    case False
    show ?thesis
    proof (cases "P1 r")
      case True
      have a': "0 \<le> a'" using Cons.prems(2,3) by simp
      have "a \<le> dadd a' (w r)"
        using dadd_grows [OF a' Cons.prems(4) w] Cons.prems(3) by simp
      moreover have "round_double (dadd a' (w r)) = dadd a' (w r)"
        unfolding dadd_def using a' w by (intro round_double_idem) simp
      ultimately show ?thesis using True False Cons.IH [OF rest Cons.prems(2)] by simp
    next
      case p1: False
      then show ?thesis using False Cons.IH [OF rest Cons.prems(2,3,4)] by simp
    qed
  qed
qed

subsection \<open>The total tonnage\<close>

lemma pairwise_sum_sequential:
  "length a < 8 \<Longrightarrow> pairwise_sum a = fold (\<lambda>x res. dadd res x) a 0"
  by (subst pairwise_sum.simps) (simp add: Let_def)

lemma pairwise_sum_Nil: "pairwise_sum [] = 0"
  by (simp add: pairwise_sum_sequential)

text \<open>The tonnage a row contributes to the total: a NaN tonnage counts as 0 in the sum.\<close>

lemma tonnage_addends:
  "map (\<lambda>c. case c of None \<Rightarrow> 0 | Some x \<Rightarrow> x) (map Tonnage (map add_tonnage rs))
     = map (\<lambda>r. case Volume_approx r of None \<Rightarrow> 0 | Some v \<Rightarrow> v * 2.7) rs"
  by (induction rs) (simp_all add: add_tonnage_def Let_def fscale_def split: option.splits)

lemma total_tonnage_eq:
  "total_tonnage (fst (calculate_ore_reserves df c))
     = pairwise_sum (map (\<lambda>r. case Volume_approx r of None \<Rightarrow> 0 | Some v \<Rightarrow> v * 2.7)
         (filter (\<lambda>r. fge (Moyenne_U_ppm r) c) df))"
  by (simp add: calculate_ore_reserves_def Let_def series_sum_def tonnage_addends del: map_map)

lemma exact_tonnage_eq:
  "sum_list (present (map Tonnage (snd (calculate_ore_reserves df c))))
     = sum_list (map (\<lambda>r. case Volume_approx r of None \<Rightarrow> 0 | Some v \<Rightarrow> v * 2.7)
         (filter (\<lambda>r. fge (Moyenne_U_ppm r) c) df))"
proof -
  have "sum_list (present (map Tonnage (map add_tonnage rs)))
          = sum_list (map (\<lambda>r. case Volume_approx r of None \<Rightarrow> 0 | Some v \<Rightarrow> v * 2.7) rs)" for rs :: "'a processed_scheme list"
    by (induction rs)
       (simp_all add: present_Nil present_Cons add_tonnage_def Let_def fscale_def
          split: option.splits)
  then show ?thesis by (simp add: ore_data_eq)
qed

lemma filtered_sum_mono:
  fixes w :: "'a \<Rightarrow> real"
  assumes "\<forall>r \<in> set df. 0 \<le> w r" and "\<forall>r. P2 r \<longrightarrow> P1 r"
  shows "sum_list (map w (filter P2 df)) \<le> sum_list (map w (filter P1 df))"
  using assms(1)
proof (induction df)
  case Nil
  then show ?case by simp
next
  case (Cons r df)
  then have ih: "sum_list (map w (filter P2 df)) \<le> sum_list (map w (filter P1 df))"
    and nn: "0 \<le> w r" by simp_all
  show ?case
  proof (cases "P2 r")
    case True
    with assms(2) have "P1 r" by blast
    with True ih show ?thesis by simp
  next
    case False
    with ih nn show ?thesis by simp
  qed
qed

lemma length_filter_mono:
  assumes "\<forall>r. P2 r \<longrightarrow> P1 r"
  shows "length (filter P2 df) \<le> length (filter P1 df)"
  using assms by (induction df) auto

text \<open>
  Claim C2, as amended. For a fixed table whose volume proxies are non-negative (a NaN
  volume proxy is allowed: it counts as 0 in the sum) and cutoff grades \<open>c1 \<le> c2\<close>: the ore
  rows at \<open>c2\<close> are those of the ore rows at \<open>c1\<close> whose grade reaches \<open>c2\<close>, with the same
  tonnages, none of which is negative; so the number of ore rows at \<open>c1\<close> is at least that at
  \<open>c2\<close>, and so is the sum of their tonnages in exact arithmetic. The total tonnage that is
  reported is the sum that numpy computes in double precision: when there are fewer than 8
  ore rows at \<open>c1\<close>, the total reported at \<open>c1\<close> is at least the total reported at \<open>c2\<close>. For 8
  ore rows or more the order of the additions changes with the number of rows, and nothing
  is stated about the totals reported.
\<close>

theorem total_tonnage_antimono_sequential:
  assumes "\<forall>r \<in> set df. \<forall>v. Volume_approx r = Some v \<longrightarrow> 0 \<le> v" and "c1 \<le> c2"
  shows "snd (calculate_ore_reserves df c2)
           = filter (\<lambda>r. fge (Moyenne_U_ppm (base r)) c2) (snd (calculate_ore_reserves df c1))
       \<and> (\<forall>r \<in> set (snd (calculate_ore_reserves df c1)). \<forall>t. Tonnage r = Some t \<longrightarrow> 0 \<le> t)
       \<and> ore_blocks (fst (calculate_ore_reserves df c2))
           \<le> ore_blocks (fst (calculate_ore_reserves df c1))
       \<and> sum_list (present (map Tonnage (snd (calculate_ore_reserves df c2))))
           \<le> sum_list (present (map Tonnage (snd (calculate_ore_reserves df c1))))
       \<and> (ore_blocks (fst (calculate_ore_reserves df c1)) < 8
            \<longrightarrow> total_tonnage (fst (calculate_ore_reserves df c2))
                  \<le> total_tonnage (fst (calculate_ore_reserves df c1)))"
proof (intro conjI impI ballI allI)
  let ?w = "\<lambda>r :: 'a processed_scheme. case Volume_approx r of None \<Rightarrow> 0 | Some v \<Rightarrow> v * 2.7"
  let ?P1 = "\<lambda>r :: 'a processed_scheme. fge (Moyenne_U_ppm r) c1"
  let ?P2 = "\<lambda>r :: 'a processed_scheme. fge (Moyenne_U_ppm r) c2"
  have w: "\<forall>r \<in> set df. 0 \<le> ?w r"
    using assms(1) by (auto split: option.splits)
  have imp: "\<forall>r. ?P2 r \<longrightarrow> ?P1 r"
    using fge_mono [OF assms(2)] by blast
  have "filter ?P2 df = filter ?P2 (filter ?P1 df)"
    using imp by (induction df) auto
  then show "snd (calculate_ore_reserves df c2)
           = filter (\<lambda>r. fge (Moyenne_U_ppm (base r)) c2) (snd (calculate_ore_reserves df c1))"
    by (simp add: ore_data_eq filter_map comp_def add_tonnage_def Let_def)
  show "ore_blocks (fst (calculate_ore_reserves df c2))
           \<le> ore_blocks (fst (calculate_ore_reserves df c1))"
    using length_filter_mono [OF imp, of df] by (simp add: calculate_ore_reserves_def Let_def)
  show "sum_list (present (map Tonnage (snd (calculate_ore_reserves df c2))))
           \<le> sum_list (present (map Tonnage (snd (calculate_ore_reserves df c1))))"
    unfolding exact_tonnage_eq using w imp by (rule filtered_sum_mono)
  {
    fix r t
    assume "r \<in> set (snd (calculate_ore_reserves df c1))" and t: "Tonnage r = Some t"
    then obtain b where b: "r = add_tonnage b" "b \<in> set df" by (auto simp: ore_data_eq)
    from t b(1) have m: "map_option (\<lambda>v. v * 2.7) (Volume_approx b) = Some t"
      by (simp add: add_tonnage_def Let_def fscale_def)
    show "0 \<le> t"
    proof (cases "Volume_approx b")
      case None
      with m show ?thesis by simp
    next
      case (Some v)
      with assms(1) b(2) have "0 \<le> v" by blast
      with m Some show ?thesis by auto
    qed
  }
  {
    assume "ore_blocks (fst (calculate_ore_reserves df c1)) < 8"
    then have l1: "length (filter ?P1 df) < 8" by (simp add: calculate_ore_reserves_def Let_def)
    with length_filter_mono [OF imp, of df] have l2: "length (filter ?P2 df) < 8" by simp
    have "fold (\<lambda>x res. dadd res x) (map ?w (filter ?P2 df)) 0
            \<le> fold (\<lambda>x res. dadd res x) (map ?w (filter ?P1 df)) 0"
      using w imp by (rule fold_dadd_sublist) (simp_all add: round_double_def)
    then show "total_tonnage (fst (calculate_ore_reserves df c2))
                  \<le> total_tonnage (fst (calculate_ore_reserves df c1))"
      using l1 l2 by (simp add: total_tonnage_eq pairwise_sum_sequential)
  }
qed

lemma scenario_A_totals:
  "total_tonnage (fst (calculate_ore_reserves scenario_A 30)) = 540"
  "total_tonnage (fst (calculate_ore_reserves scenario_A 5)) = 810"
  by code_simp+

theorem total_tonnage_antimono_sequential_witness:
  "list_all (\<lambda>r. case Volume_approx r of None \<Rightarrow> True | Some v \<Rightarrow> 0 \<le> v) scenario_A
   \<and> ore_blocks (fst (calculate_ore_reserves scenario_A 5)) = 3
   \<and> map (\<lambda>r. Moyenne_U_ppm (base r)) (snd (calculate_ore_reserves scenario_A 5))
       = [Some 10, Some 40, Some 60]
   \<and> map (\<lambda>r. Moyenne_U_ppm (base r)) (snd (calculate_ore_reserves scenario_A 30))
       = [Some 40, Some 60]
   \<and> total_tonnage (fst (calculate_ore_reserves scenario_A 30)) = 540
   \<and> total_tonnage (fst (calculate_ore_reserves scenario_A 5)) = 810
   \<and> total_tonnage (fst (calculate_ore_reserves scenario_A 30))
       \<le> total_tonnage (fst (calculate_ore_reserves scenario_A 5))"
proof -
  have h: "\<forall>r \<in> set scenario_A. \<forall>v. Volume_approx r = Some v \<longrightarrow> 0 \<le> v"
    by (simp add: scenario_A_def sample_row_def)
  have n: "ore_blocks (fst (calculate_ore_reserves scenario_A 5)) = 3"
    by (simp add: calculate_ore_reserves_def Let_def scenario_A_def sample_row_def fge_def)
  have g: "map (\<lambda>r. Moyenne_U_ppm (base r)) (snd (calculate_ore_reserves scenario_A 5))
       = [Some 10, Some 40, Some 60]"
    "map (\<lambda>r. Moyenne_U_ppm (base r)) (snd (calculate_ore_reserves scenario_A 30))
       = [Some 40, Some 60]"
    by (simp_all add: ore_data_eq scenario_A_def sample_row_def fge_def add_tonnage_def Let_def)
  have v: "list_all (\<lambda>r. case Volume_approx r of None \<Rightarrow> True | Some v \<Rightarrow> 0 \<le> v) scenario_A"
    by (simp add: scenario_A_def sample_row_def)
  have c: "(5 :: real) \<le> 30" by simp
  from total_tonnage_antimono_sequential [OF h c] n
  have "total_tonnage (fst (calculate_ore_reserves scenario_A 30))
       \<le> total_tonnage (fst (calculate_ore_reserves scenario_A 5))"
    by simp
  with v n g scenario_A_totals show ?thesis by simp
qed

text \<open>The claim as stated fails: on the eight rows, at the cutoff 5 numpy adds the eight
  tonnages in pairs and reports \<open>27 * 2\<^sup>4\<^sup>9 + 164\<close>; at the cutoff 30 it adds the first seven
  one after the other and reports \<open>27 * 2\<^sup>4\<^sup>9 + 168\<close>, which is more. (The sums in exact
  arithmetic are \<open>27 * 2\<^sup>4\<^sup>9 + 162 + 27 / 32\<close> and \<open>27 * 2\<^sup>4\<^sup>9 + 162\<close>.)\<close>

theorem total_tonnage_increases_by_rounding:
  "list_all (\<lambda>r. case Volume_approx r of None \<Rightarrow> False | Some v \<Rightarrow> 0 \<le> v) rounding_table
   \<and> total_tonnage (fst (calculate_ore_reserves rounding_table 5)) = 27 * 2 ^ 49 + 164
   \<and> total_tonnage (fst (calculate_ore_reserves rounding_table 30)) = 27 * 2 ^ 49 + 168
   \<and> total_tonnage (fst (calculate_ore_reserves rounding_table 5))
       < total_tonnage (fst (calculate_ore_reserves rounding_table 30))"
proof -
  have v: "list_all (\<lambda>r. case Volume_approx r of None \<Rightarrow> False | Some v \<Rightarrow> 0 \<le> v) rounding_table"
    by (simp add: rounding_table_def sample_row_def list_all_iff)
  have a: "total_tonnage (fst (calculate_ore_reserves rounding_table 5)) = 27 * 2 ^ 49 + 164"
    by code_simp
  have b: "total_tonnage (fst (calculate_ore_reserves rounding_table 30)) = 27 * 2 ^ 49 + 168"
    by code_simp
  show ?thesis unfolding a b using v by simp
qed

text \<open>
  Claim C3. For a table in which every mean grade is strictly below the cutoff,
  \<open>calculate_ore_reserves\<close> returns (it has no failing branch) total tonnage 0, ore-block
  count 0 and an empty ore subset, and the average grade of the summary is NaN, the
  not-a-number marker, not a number.
\<close>

theorem calculate_ore_reserves_empty:
  assumes "\<forall>r \<in> set df. \<exists>g. Moyenne_U_ppm r = Some g \<and> g < c"
  shows "calculate_ore_reserves df c
       = (\<lparr>total_tonnage = 0, average_grade = None, metal_content = 0, ore_blocks = 0\<rparr>, [])"
proof -
  have "filter (\<lambda>r. fge (Moyenne_U_ppm r) c) df = []"
    using assms by (auto simp: filter_empty_conv fge_def)
  then show ?thesis
    by (simp add: calculate_ore_reserves_def series_sum_def series_mean_def present_Nil
          pairwise_sum_Nil)
qed

theorem calculate_ore_reserves_empty_witness:
  "list_all (\<lambda>r. case Moyenne_U_ppm r of None \<Rightarrow> False | Some g \<Rightarrow> g < 100) scenario_A
   \<and> total_tonnage (fst (calculate_ore_reserves scenario_A 100)) = 0
   \<and> ore_blocks (fst (calculate_ore_reserves scenario_A 100)) = 0
   \<and> average_grade (fst (calculate_ore_reserves scenario_A 100)) = None
   \<and> snd (calculate_ore_reserves scenario_A 100) = []"
proof -
  have h: "\<forall>r \<in> set scenario_A. \<exists>g. Moyenne_U_ppm r = Some g \<and> g < 100"
    by (simp add: scenario_A_def sample_row_def)
  have "list_all (\<lambda>r. case Moyenne_U_ppm r of None \<Rightarrow> False | Some g \<Rightarrow> g < 100) scenario_A"
    by (simp add: scenario_A_def sample_row_def)
  with calculate_ore_reserves_empty [OF h] show ?thesis by simp
qed

section \<open>Properties of the preprocessor\<close>

text \<open>
  Claim C9. Preprocessing is idempotent as a two-run property. When a run of
  \<open>load_and_preprocess_data\<close> on a raw frame returns a table, a second run on the same raw
  frame, started from the processor the first run left behind, returns the identical table
  (all columns, hence the lithology indices and the filled lengths and thicknesses) and
  leaves the processor as it is; the table does not depend on the processor the run starts
  from. When a run raises, every run on that frame raises the same error.
\<close>

theorem load_and_preprocess_data_two_runs:
  "(load_and_preprocess_data parse self raw = Inr (self1, t1)
      \<longrightarrow> load_and_preprocess_data parse self1 raw = Inr (self1, t1)
        \<and> (\<exists>self2. load_and_preprocess_data parse self' raw = Inr (self2, t1)))
   \<and> (load_and_preprocess_data parse self raw = Inl e
      \<longrightarrow> load_and_preprocess_data parse self' raw = Inl e)"
  by (auto simp: load_and_preprocess_data_def Let_def split: if_splits)

theorem load_and_preprocess_data_two_runs_witness:
  "\<exists>self1 t1.
      load_and_preprocess_data parse_demo (new_processor :: unit processor) raw_demo = Inr (self1, t1)
    \<and> label_encoder self1 = Some [''Granite'', ''Inconnu'', ''Schiste'']
    \<and> map Lithologie_encoded t1 = [2, 1, 0]
    \<and> map Longueur_m t1 = [Some 150, Some 100, Some 200]
    \<and> map Volume_approx t1 = [Some 300, Some 200, Some 400]
    \<and> load_and_preprocess_data parse_demo self1 raw_demo = Inr (self1, t1)"
proof -
  have "\<exists>self1 t1.
      load_and_preprocess_data parse_demo (new_processor :: unit processor) raw_demo = Inr (self1, t1)
    \<and> label_encoder self1 = Some [''Granite'', ''Inconnu'', ''Schiste'']
    \<and> map Lithologie_encoded t1 = [2, 1, 0]
    \<and> map Longueur_m t1 = [Some 150, Some 100, Some 200]
    \<and> map Volume_approx t1 = [Some 300, Some 200, Some 400]"
    by (simp add: load_and_preprocess_data_def Let_def raw_demo_def raw_row_demo_def
          parse_demo_def new_processor_def convert_row_def to_numeric_def critical_present_def
          set_lithologie_def fit_classes_def transform_label_def derive_row_def fillna_def
          series_mean_def present_def fmul_def fscale_def)
  then obtain self1 t1 where
    r: "load_and_preprocess_data parse_demo (new_processor :: unit processor) raw_demo = Inr (self1, t1)"
    and v: "label_encoder self1 = Some [''Granite'', ''Inconnu'', ''Schiste'']"
      "map Lithologie_encoded t1 = [2, 1, 0]"
      "map Longueur_m t1 = [Some 150, Some 100, Some 200]"
      "map Volume_approx t1 = [Some 300, Some 200, Some 400]"
    by (elim exE conjE)
  from load_and_preprocess_data_two_runs [of parse_demo new_processor raw_demo self1 t1] r
  have "load_and_preprocess_data parse_demo self1 raw_demo = Inr (self1, t1)" by blast
  with r v show ?thesis by (intro exI [of _ self1] exI [of _ t1] conjI)
qed

subsection \<open>The synthetic generator\<close>

lemma uniform_bounds:
  assumes "low \<le> high" "0 \<le> u" "u < 1"
  shows "low \<le> uniform low high u" "uniform low high u \<le> high"
proof -
  have "0 \<le> (high - low) * u" using assms by simp
  then show "low \<le> uniform low high u" by (simp add: uniform_def)
  have "(high - low) * u \<le> (high - low) * 1"
    using assms by (intro mult_left_mono) simp_all
  then show "uniform low high u \<le> high" by (simp add: uniform_def)
qed

lemma rows_create_sample_data:
  "r \<in> set (rows (create_sample_data d n)) \<longleftrightarrow> (\<exists>i < n. r = create_sample_row d i)"
  by (auto simp: create_sample_data_def)


lemma sample_noise_floor: "50 + 30 * sin x * cos y + 10 * (- 20) \<le> (0 :: real)"
proof -
  have "\<bar>sin x * cos y\<bar> \<le> 1 * 1"
    unfolding abs_mult by (intro mult_mono) simp_all
  then have "sin x * cos y \<le> 1" by (simp add: abs_le_iff)
  moreover have "30 * sin x * cos y = 30 * (sin x * cos y)" by simp
  ultimately show ?thesis by linarith
qed




text \<open>
  Claim C10. For every \<open>n\<close> and all draws of the generator, every row of the table returned
  by \<open>create_sample_data\<close> has a depth end strictly greater than its depth start and a
  maximal grade greater than or equal to its mean grade.
\<close>

theorem create_sample_data_record_invariants:
  assumes "\<forall>k i. 0 \<le> unif d k i \<and> unif d k i < 1"
  shows "\<forall>r \<in> set (rows (create_sample_data d n)).
           \<exists>s e g m. de_m r = Num s \<and> a_m r = Num e \<and> s < e
                 \<and> Moyenne_U_ppm r = Num g \<and> Max_U_ppm r = Num m \<and> g \<le> m"
proof
  fix r assume "r \<in> set (rows (create_sample_data d n))"
  then obtain i where r: "r = create_sample_row d i"
    by (auto simp: rows_create_sample_data)
  have u: "0 \<le> unif d k i" "unif d k i < 1" for k using assms by simp_all
  have "5 \<le> uniform 5 50 (unif d 3 i)" "0 \<le> uniform 0 50 (unif d 7 i)"
    using u by (simp_all add: uniform_bounds)
  then show "\<exists>s e g m. de_m r = Num s \<and> a_m r = Num e \<and> s < e
                 \<and> Moyenne_U_ppm r = Num g \<and> Max_U_ppm r = Num m \<and> g \<le> m"
    by (simp add: r create_sample_row_def Let_def)
qed

theorem create_sample_data_record_invariants_witness:
  "(\<forall>k i. 0 \<le> unif half_draws k i \<and> unif half_draws k i < 1)
   \<and> map de_m (rows (create_sample_data half_draws 2)) = [Num 0, Num 50]
   \<and> map a_m (rows (create_sample_data half_draws 2)) = [Num 5, Num (155 / 2)]
   \<and> map Moyenne_U_ppm (rows (create_sample_data half_draws 2)) = [Num 0, Num 0]
   \<and> map Max_U_ppm (rows (create_sample_data half_draws 2)) = [Num 0, Num 25]
   \<and> list_all (\<lambda>r. \<exists>s e g m. de_m r = Num s \<and> a_m r = Num e \<and> s < e
                 \<and> Moyenne_U_ppm r = Num g \<and> Max_U_ppm r = Num m \<and> g \<le> m)
        (rows (create_sample_data half_draws 2))"
proof -
  have h: "\<forall>k i. 0 \<le> unif half_draws k i \<and> unif half_draws k i < 1"
    by (simp add: half_draws_def)
  have two: "[0..<2] = [0, Suc 0]" by (simp add: upt_rec)
  have m: "map Moyenne_U_ppm (rows (create_sample_data half_draws 2)) = [Num 0, Num 0]"
    using sample_noise_floor
    by (simp add: create_sample_data_def two create_sample_row_def Let_def uniform_def
          half_draws_def max_absorb1)
  have "map de_m (rows (create_sample_data half_draws 2)) = [Num 0, Num 50]"
    "map a_m (rows (create_sample_data half_draws 2)) = [Num 5, Num (155 / 2)]"
    by (simp_all add: create_sample_data_def two create_sample_row_def Let_def uniform_def
          half_draws_def)
  moreover have "map Max_U_ppm (rows (create_sample_data half_draws 2)) = [Num 0, Num 25]"
    using sample_noise_floor
    by (simp add: create_sample_data_def two create_sample_row_def Let_def uniform_def
          half_draws_def max_absorb1)
  ultimately show ?thesis
    using h m create_sample_data_record_invariants [OF h, of 2] by (simp add: list_all_iff)
qed

section \<open>Properties of the grade predictor\<close>

lemma n_test_bounds:
  "2 \<le> n \<Longrightarrow> nat \<lceil>real n / 5\<rceil> < n" "1 \<le> n \<Longrightarrow> 1 \<le> nat \<lceil>real n / 5\<rceil>"
  "n < 2 \<Longrightarrow> n \<le> nat \<lceil>real n / 5\<rceil>"
proof -
  show "2 \<le> n \<Longrightarrow> nat \<lceil>real n / 5\<rceil> < n" by linarith
  show "1 \<le> n \<Longrightarrow> 1 \<le> nat \<lceil>real n / 5\<rceil>" by linarith
  show "n < 2 \<Longrightarrow> n \<le> nat \<lceil>real n / 5\<rceil>" by linarith
qed

lemma train_test_split_small:
  "length xs < 2 \<Longrightarrow> train_test_split permutation xs = Inl ValueError"
  by (simp add: train_test_split_def Let_def n_test_bounds(3))

lemma mset_map_nth_permutation:
  assumes "mset p = mset [0..<length xs]"
  shows "mset (map (\<lambda>i. xs ! i) p) = mset xs"
proof -
  have "mset (map (\<lambda>i. xs ! i) p) = image_mset (\<lambda>i. xs ! i) (mset p)" by simp
  also have "\<dots> = mset (map (\<lambda>i. xs ! i) [0..<length xs])" using assms by simp
  also have "\<dots> = mset xs" by (simp add: map_nth)
  finally show ?thesis .
qed

lemma train_test_split_large:
  assumes p: "mset (permutation (length xs)) = mset [0..<length xs]" and n: "2 \<le> length xs"
  shows "\<exists>train test. train_test_split permutation xs = Inr (train, test)
           \<and> length test = nat \<lceil>real (length xs) / 5\<rceil>
           \<and> length train = length xs - length test
           \<and> 1 \<le> length train \<and> 1 \<le> length test
           \<and> mset (test @ train) = mset xs"
proof -
  define k where "k = nat \<lceil>real (length xs) / 5\<rceil>"
  have k: "k < length xs" "1 \<le> k" "k = nat \<lceil>real (length xs) / 5\<rceil>"
    using n n_test_bounds(1,2) [of "length xs"] by (simp_all add: k_def)
  have lp: "length (permutation (length xs)) = length xs"
    using p by (metis length_upt mset_eq_length minus_nat.diff_0)
  define test where "test = map (\<lambda>i. xs ! i) (take k (permutation (length xs)))"
  define train where "train = map (\<lambda>i. xs ! i) (take (length xs - k) (drop k (permutation (length xs))))"
  have s: "train_test_split permutation xs = Inr (train, test)"
    using k(1) by (simp add: train_test_split_def Let_def k_def [symmetric] test_def train_def)
  have "take (length xs - k) (drop k (permutation (length xs))) = drop k (permutation (length xs))"
    using lp by simp
  then have "test @ train = map (\<lambda>i. xs ! i) (permutation (length xs))"
    unfolding test_def train_def by (simp flip: map_append)
  then have "mset (test @ train) = mset xs"
    using mset_map_nth_permutation [OF p] by simp
  moreover have "length test = k" "length train = length xs - k"
    using lp k(1) by (simp_all add: test_def train_def)
  ultimately show ?thesis using s k by auto
qed

text \<open>The outcomes of fitting and scoring on a given split, one by one.\<close>

lemma fit_and_score_fit_raises:
  "fit rf train = Inl e \<Longrightarrow> fit_and_score rf self train test = Inl e"
  by (simp add: fit_and_score_def)

lemma fit_and_score_predict_raises:
  "fit rf train = Inr m \<Longrightarrow> predict rf m (map fst test) = Inl e
     \<Longrightarrow> fit_and_score rf self train test = Inl e"
  by (simp add: fit_and_score_def)

lemma fit_and_score_metric_raises:
  "fit rf train = Inr m \<Longrightarrow> predict rf m (map fst test) = Inr y_pred
     \<Longrightarrow> None \<in> set (map snd test) \<or> length y_pred \<noteq> length test
     \<Longrightarrow> fit_and_score rf self train test = Inl ValueError"
  by (simp add: fit_and_score_def)

lemma fit_and_score_returns:
  "fit rf train = Inr m \<Longrightarrow> predict rf m (map fst test) = Inr y_pred
     \<Longrightarrow> None \<notin> set (map snd test) \<Longrightarrow> length y_pred = length test
     \<Longrightarrow> fit_and_score rf self train test
           = Inr (self\<lparr>uranium_model := Some m\<rparr>,
                  \<lparr>mse = mean_squared_error (present (map snd test)) y_pred,
                   r2 = r2_score (present (map snd test)) y_pred,
                   feature_importance = zip features (feature_importances rf m)\<rparr>)"
  by (simp add: fit_and_score_def Let_def)

lemma length_present:
  "None \<notin> set xs \<Longrightarrow> length (present xs) = length xs"
proof (induction xs)
  case Nil
  then show ?case by (simp add: present_Nil)
next
  case (Cons a xs)
  then show ?case by (cases a) (simp_all add: present_Cons)
qed

lemma single_test_row:
  "1 \<le> n \<Longrightarrow> n \<le> 5 \<Longrightarrow> nat \<lceil>real n / 5\<rceil> = 1"
  by linarith

text \<open>
  Claim C4, as amended. \<open>train_uranium_model\<close> has no check of the number of rows and no
  error of its own. A table of fewer than two rows makes it fail with the \<^verbatim>\<open>ValueError\<close> of
  the split. For a table of \<open>n \<ge> 2\<close> rows the number of rows never makes it fail: the
  split succeeds with \<open>\<lceil>n / 5\<rceil> \<ge> 1\<close> test rows and \<open>n - \<lceil>n / 5\<rceil> \<ge> 1\<close> training rows, which
  together are the rows of the table, and the forest is fitted on the training rows, however
  few. The call then fails only with the error that fitting or prediction raises, or with
  \<^verbatim>\<open>ValueError\<close> when a test target is NaN (or the prediction has not one value for each test
  row); otherwise it returns the fitted model with the mean squared error and the score
  \<open>R\<^sup>2\<close> on the test rows, and for \<open>n \<le> 5\<close>, when there is a single test row, this score is
  NaN.
\<close>

theorem train_uranium_model_no_row_check:
  assumes "mset (permutation (length df)) = mset [0..<length df]"
  shows "(length df < 2 \<longrightarrow> train_uranium_model rf permutation self df = Inl ValueError)
       \<and> (2 \<le> length df \<longrightarrow>
            (\<exists>train test.
                train_test_split permutation (map (\<lambda>r. (feature_row r, Moyenne_U_ppm r)) df)
                  = Inr (train, test)
              \<and> length test = nat \<lceil>real (length df) / 5\<rceil>
              \<and> length train = length df - length test
              \<and> 1 \<le> length train \<and> 1 \<le> length test
              \<and> mset (test @ train) = mset (map (\<lambda>r. (feature_row r, Moyenne_U_ppm r)) df)
              \<and> (\<forall>e. fit rf train = Inl e
                     \<longrightarrow> train_uranium_model rf permutation self df = Inl e)
              \<and> (\<forall>m e. fit rf train = Inr m \<and> predict rf m (map fst test) = Inl e
                     \<longrightarrow> train_uranium_model rf permutation self df = Inl e)
              \<and> (\<forall>m y_pred. fit rf train = Inr m \<and> predict rf m (map fst test) = Inr y_pred
                       \<and> (None \<in> set (map snd test) \<or> length y_pred \<noteq> length test)
                     \<longrightarrow> train_uranium_model rf permutation self df = Inl ValueError)
              \<and> (\<forall>m y_pred. fit rf train = Inr m \<and> predict rf m (map fst test) = Inr y_pred
                       \<and> None \<notin> set (map snd test) \<and> length y_pred = length test
                     \<longrightarrow> (\<exists>score.
                            train_uranium_model rf permutation self df
                              = Inr (self\<lparr>uranium_model := Some m\<rparr>,
                                     \<lparr>mse = mean_squared_error (present (map snd test)) y_pred,
                                      r2 = score,
                                      feature_importance = zip features (feature_importances rf m)\<rparr>)
                          \<and> score = r2_score (present (map snd test)) y_pred
                          \<and> (length df \<le> 5 \<longrightarrow> score = None)))))"
proof (intro conjI impI)
  assume "length df < 2"
  then show "train_uranium_model rf permutation self df = Inl ValueError"
    by (simp add: train_uranium_model_def train_test_split_small)
next
  let ?xs = "map (\<lambda>r. (feature_row r, Moyenne_U_ppm r)) df"
  assume n: "2 \<le> length df"
  with assms have "mset (permutation (length ?xs)) = mset [0..<length ?xs]" "2 \<le> length ?xs"
    by simp_all
  from train_test_split_large [of permutation ?xs, OF this]
  obtain train test where t: "train_test_split permutation ?xs = Inr (train, test)"
      "length test = nat \<lceil>real (length ?xs) / 5\<rceil>"
      "length train = length ?xs - length test"
      "1 \<le> length train" "1 \<le> length test" "mset (test @ train) = mset ?xs"
    by blast
  have run: "train_uranium_model rf permutation self df = fit_and_score rf self train test"
    by (simp add: train_uranium_model_def t(1))
  have one: "length test = 1" if "length df \<le> 5"
    using t(2) single_test_row [of "length df"] n that by simp
  have a: "\<forall>e. fit rf train = Inl e \<longrightarrow> train_uranium_model rf permutation self df = Inl e"
    unfolding run by (simp add: fit_and_score_fit_raises)
  have b: "\<forall>m e. fit rf train = Inr m \<and> predict rf m (map fst test) = Inl e
             \<longrightarrow> train_uranium_model rf permutation self df = Inl e"
    unfolding run by (simp add: fit_and_score_predict_raises)
  have c: "\<forall>m y_pred. fit rf train = Inr m \<and> predict rf m (map fst test) = Inr y_pred
                       \<and> (None \<in> set (map snd test) \<or> length y_pred \<noteq> length test)
             \<longrightarrow> train_uranium_model rf permutation self df = Inl ValueError"
    unfolding run using fit_and_score_metric_raises [of rf train _ test] by blast
  have d: "\<forall>m y_pred. fit rf train = Inr m \<and> predict rf m (map fst test) = Inr y_pred
                       \<and> None \<notin> set (map snd test) \<and> length y_pred = length test
             \<longrightarrow> (\<exists>score.
                    train_uranium_model rf permutation self df
                      = Inr (self\<lparr>uranium_model := Some m\<rparr>,
                             \<lparr>mse = mean_squared_error (present (map snd test)) y_pred,
                              r2 = score,
                              feature_importance = zip features (feature_importances rf m)\<rparr>)
                  \<and> score = r2_score (present (map snd test)) y_pred
                  \<and> (length df \<le> 5 \<longrightarrow> score = None))"
  proof (intro allI impI)
    fix m y_pred
    assume h: "fit rf train = Inr m \<and> predict rf m (map fst test) = Inr y_pred
                 \<and> None \<notin> set (map snd test) \<and> length y_pred = length test"
    then have r: "train_uranium_model rf permutation self df
             = Inr (self\<lparr>uranium_model := Some m\<rparr>,
                    \<lparr>mse = mean_squared_error (present (map snd test)) y_pred,
                     r2 = r2_score (present (map snd test)) y_pred,
                     feature_importance = zip features (feature_importances rf m)\<rparr>)"
      unfolding run by (intro fit_and_score_returns) simp_all
    have "r2_score (present (map snd test)) y_pred = None" if "length df \<le> 5"
      using one [OF that] h by (simp add: r2_score_def length_present)
    with r show "\<exists>score.
                    train_uranium_model rf permutation self df
                      = Inr (self\<lparr>uranium_model := Some m\<rparr>,
                             \<lparr>mse = mean_squared_error (present (map snd test)) y_pred,
                              r2 = score,
                              feature_importance = zip features (feature_importances rf m)\<rparr>)
                  \<and> score = r2_score (present (map snd test)) y_pred
                  \<and> (length df \<le> 5 \<longrightarrow> score = None)"
      by simp
  qed
  have sizes: "length test = nat \<lceil>real (length df) / 5\<rceil>" "length train = length df - length test"
    using t(2,3) by simp_all
  show "\<exists>train test.
                train_test_split permutation ?xs = Inr (train, test)
              \<and> length test = nat \<lceil>real (length df) / 5\<rceil>
              \<and> length train = length df - length test
              \<and> 1 \<le> length train \<and> 1 \<le> length test
              \<and> mset (test @ train) = mset ?xs
              \<and> (\<forall>e. fit rf train = Inl e
                     \<longrightarrow> train_uranium_model rf permutation self df = Inl e)
              \<and> (\<forall>m e. fit rf train = Inr m \<and> predict rf m (map fst test) = Inl e
                     \<longrightarrow> train_uranium_model rf permutation self df = Inl e)
              \<and> (\<forall>m y_pred. fit rf train = Inr m \<and> predict rf m (map fst test) = Inr y_pred
                       \<and> (None \<in> set (map snd test) \<or> length y_pred \<noteq> length test)
                     \<longrightarrow> train_uranium_model rf permutation self df = Inl ValueError)
              \<and> (\<forall>m y_pred. fit rf train = Inr m \<and> predict rf m (map fst test) = Inr y_pred
                       \<and> None \<notin> set (map snd test) \<and> length y_pred = length test
                     \<longrightarrow> (\<exists>score.
                            train_uranium_model rf permutation self df
                              = Inr (self\<lparr>uranium_model := Some m\<rparr>,
                                     \<lparr>mse = mean_squared_error (present (map snd test)) y_pred,
                                      r2 = score,
                                      feature_importance = zip features (feature_importances rf m)\<rparr>)
                          \<and> score = r2_score (present (map snd test)) y_pred
                          \<and> (length df \<le> 5 \<longrightarrow> score = None)))"
    apply (rule exI [of _ train], rule exI [of _ test])
    apply (intro conjI)
    apply (rule t(1))
    apply (rule sizes(1))
    apply (rule sizes(2))
    apply (rule t(4))
    apply (rule t(5))
    apply (rule t(6))
    apply (rule a)
    apply (rule b)
    apply (rule c)
    apply (rule d)
    done
qed

theorem train_uranium_model_no_row_check_witness:
  "mset (rev_permutation (length two_rows)) = mset [0..<length two_rows]
   \<and> length two_rows = 2
   \<and> train_test_split rev_permutation (map (\<lambda>r. (feature_row r, Moyenne_U_ppm r)) two_rows)
       = Inr ([(feature_row (sample_row 40 (Some 100)), Some 40)],
              [(feature_row (sample_row 60 (Some 200)), Some 60)])
   \<and> fit mean_learner [(feature_row (sample_row 40 (Some 100)), Some 40)] = Inr 40
   \<and> predict mean_learner 40 [feature_row (sample_row 60 (Some 200))] = Inr [40]
   \<and> (\<exists>self' results.
         train_uranium_model mean_learner rev_permutation new_processor two_rows
           = Inr (self', results)
       \<and> uranium_model self' = Some 40 \<and> mse results = 400 \<and> r2 results = None)
   \<and> train_uranium_model mean_learner rev_permutation new_processor [sample_row 40 (Some 100)]
       = Inl ValueError"
proof -
  let ?train = "[(feature_row (sample_row 40 (Some 100)), Some (40 :: real))]"
  let ?test = "[(feature_row (sample_row 60 (Some 200)), Some (60 :: real))]"
  have h: "mset (rev_permutation (length two_rows)) = mset [0..<length two_rows]"
    by (simp add: rev_permutation_def)
  have l: "length two_rows = 2" by (simp add: two_rows_def)
  have s: "train_test_split rev_permutation (map (\<lambda>r. (feature_row r, Moyenne_U_ppm r)) two_rows)
             = Inr (?train, ?test)"
    by (simp add: two_rows_def train_test_split_def Let_def rev_permutation_def upt_rec [of 0]
          sample_row_def)
  have f: "fit mean_learner ?train = Inr 40"
    by (simp add: mean_learner_def feature_row_def sample_row_def present_def)
  have p: "predict mean_learner 40 (map fst ?test) = Inr [40]"
    by (simp add: mean_learner_def)
  note t = train_uranium_model_no_row_check
    [of rev_permutation two_rows mean_learner new_processor, OF h]
  from t l obtain train test where
    s': "train_test_split rev_permutation (map (\<lambda>r. (feature_row r, Moyenne_U_ppm r)) two_rows)
           = Inr (train, test)"
    and r: "\<forall>m y_pred. fit mean_learner train = Inr m
               \<and> predict mean_learner m (map fst test) = Inr y_pred
               \<and> None \<notin> set (map snd test) \<and> length y_pred = length test
             \<longrightarrow> (\<exists>score.
                    train_uranium_model mean_learner rev_permutation new_processor two_rows
                      = Inr (new_processor\<lparr>uranium_model := Some m\<rparr>,
                             \<lparr>mse = mean_squared_error (present (map snd test)) y_pred,
                              r2 = score,
                              feature_importance = zip features (feature_importances mean_learner m)\<rparr>)
                  \<and> score = r2_score (present (map snd test)) y_pred
                  \<and> (length two_rows \<le> 5 \<longrightarrow> score = None))"
    by auto
  from s s' have tt: "train = ?train" "test = ?test" by simp_all
  from r [rule_format, of 40 "[40]"] f p l
  have "train_uranium_model mean_learner rev_permutation new_processor two_rows
          = Inr (new_processor\<lparr>uranium_model := Some 40\<rparr>,
                 \<lparr>mse = mean_squared_error (present (map snd ?test)) [40],
                  r2 = None,
                  feature_importance = zip features (feature_importances mean_learner 40)\<rparr>)"
    unfolding tt by auto
  then have a: "\<exists>self' results.
         train_uranium_model mean_learner rev_permutation new_processor two_rows
           = Inr (self', results)
       \<and> uranium_model self' = Some 40 \<and> mse results = 400 \<and> r2 results = None"
    by (simp add: mean_squared_error_def present_def)
  have h1: "mset (rev_permutation (length [sample_row 40 (Some 100)]))
              = mset [0..<length [sample_row 40 (Some 100)]]"
    by (simp add: rev_permutation_def)
  from train_uranium_model_no_row_check [of rev_permutation "[sample_row 40 (Some 100)]" mean_learner new_processor, OF h1]
  have b: "train_uranium_model mean_learner rev_permutation new_processor [sample_row 40 (Some 100)]
       = Inl ValueError"
    by simp
  from h l s f p a b show ?thesis by simp
qed

text \<open>The claim as stated fails: a table of two rows leaves one training row and one test
  row, and the operation returns a model fitted on the single training row, with an
  undefined score, instead of failing.\<close>

theorem train_uranium_model_two_rows:
  "length two_rows = 2
   \<and> train_uranium_model mean_learner rev_permutation new_processor two_rows
       = Inr (new_processor\<lparr>uranium_model := Some 40\<rparr>,
              \<lparr>mse = 400, r2 = None, feature_importance = zip features (replicate 7 0)\<rparr>)"
  by (simp add: two_rows_def train_uranium_model_def train_test_split_def Let_def
        rev_permutation_def upt_rec [of 0] fit_and_score_def mean_learner_def sample_row_def
        feature_row_def present_def mean_squared_error_def r2_score_def new_processor_def)

section \<open>Properties of the grid interpolator\<close>



lemma length_linspace: "length (linspace a b n) = n"
  by (simp add: linspace_def)

















lemma griddata_degenerate:
  assumes "points \<noteq> []" "None \<notin> set (map finite_point points)"
    "degenerate (List.map_filter finite_point points)"
  shows "griddata lin points values xi fill_value = Inl QhullError"
  using assms by (simp add: griddata_def Let_def)




lemma interpolate_levels_failure:
  assumes "z_grid \<noteq> []" "\<forall>z. interpolate_level lin points values x_grid y_grid z = Inl e"
  shows "interpolate_levels lin points values x_grid y_grid z_grid = Inl e"
  using assms by (cases z_grid) simp_all


lemma sample_points_finite:
  assumes "\<forall>r \<in> set df. X_mean r \<noteq> None \<and> Y_mean r \<noteq> None \<and> Z_mean r \<noteq> None"
  shows "None \<notin> set (map finite_point (map (\<lambda>r. (X_mean r, Y_mean r, Z_mean r)) df))"
  using assms by (auto simp: finite_point_def)



lemma same_depth_degenerate:
  assumes "\<forall>p \<in> set pts. snd (snd p) = c"
  shows "degenerate pts"
proof -
  have "det3 (vsub q p) (vsub r p) (vsub s p) = 0"
    if "p \<in> set pts" "q \<in> set pts" "r \<in> set pts" "s \<in> set pts" for p q r s
    using that assms by (simp add: det3_def vsub_def split: prod.splits)
  then show ?thesis by (auto simp: degenerate_def list_ex_iff)
qed

lemma degenerate_fails:
  fixes df :: "'z processed_scheme list"
  assumes "df \<noteq> []"
    and "\<forall>r \<in> set df. X_mean r \<noteq> None \<and> Y_mean r \<noteq> None \<and> Z_mean r \<noteq> None"
    and "degenerate (sample_points df)" and "2 \<le> grid_resolution"
  shows "interpolate_3d_grid lin df grid_resolution = Inl QhullError"
proof -
  let ?points = "map (\<lambda>r. (X_mean r, Y_mean r, Z_mean r)) df"
  have p1: "?points \<noteq> []" using assms(1) by simp
  have p2: "None \<notin> set (map finite_point ?points)" using assms(2) by (rule sample_points_finite)
  have p3: "degenerate (List.map_filter finite_point ?points)"
    using assms(3) by (simp add: sample_points_def)
  have fail: "\<forall>z. interpolate_level lin ?points vals x_grid y_grid z = Inl QhullError"
    for vals x_grid y_grid
    by (simp add: interpolate_level_def meshgrid_def Let_def griddata_degenerate [OF p1 p2 p3])
  have "0 < nat (grid_resolution div 2)" using assms(4) by simp
  then have "linspace a b (nat (grid_resolution div 2)) \<noteq> []" for a b
    using length_linspace [of a b "nat (grid_resolution div 2)"] by auto
  then show "interpolate_3d_grid lin df grid_resolution = Inl QhullError"
    using assms(4)
    by (simp add: interpolate_3d_grid_def Let_def interpolate_levels_failure [OF _ fail])
qed

lemma no_slice_requested:
  assumes "0 \<le> grid_resolution" "grid_resolution < 2"
  shows "interpolate_3d_grid lin df grid_resolution = Inr []"
proof -
  from assms have "nat (grid_resolution div 2) = 0" "\<not> grid_resolution < 0" by simp_all
  then show ?thesis by (simp add: interpolate_3d_grid_def Let_def linspace_def)
qed

lemma flat_table_points:
  "sample_points flat_table = [(0, 0, 5), (2, 0, 5), (0, 2, 5), (2, 2, 5)]"
  by (simp add: sample_points_def flat_table_def point_row_def sample_row_def
        List.map_filter_def finite_point_def)

lemma flat_table_degenerate: "degenerate (sample_points flat_table)"
  unfolding flat_table_points by (rule same_depth_degenerate [of _ 5]) simp

lemma flat_table_coords:
  "flat_table \<noteq> []"
  "\<forall>r \<in> set flat_table. X_mean r \<noteq> None \<and> Y_mean r \<noteq> None \<and> Z_mean r \<noteq> None"
  by (simp_all add: flat_table_def point_row_def)








text \<open>
  Claim C5, as amended. For a table (with at least one row and no missing midpoint
  coordinate) whose sample points are degenerate, that is, collapse onto a plane, a line or
  a point, \<open>interpolate_3d_grid\<close> has no fallback: whenever at least one slice is asked for
  (a resolution of 2 or more) the error of the triangulation is raised and no result is
  returned. It returns only for the resolutions 0 and 1, for which there is no slice and the
  result is the empty sequence.
\<close>

theorem interpolate_3d_grid_degenerate_raises:
  fixes df :: "'z processed_scheme list"
  assumes "df \<noteq> []"
    and "\<forall>r \<in> set df. X_mean r \<noteq> None \<and> Y_mean r \<noteq> None \<and> Z_mean r \<noteq> None"
    and "degenerate (sample_points df)"
  shows "(2 \<le> grid_resolution \<longrightarrow> interpolate_3d_grid lin df grid_resolution = Inl QhullError)
       \<and> (0 \<le> grid_resolution \<and> grid_resolution < 2
            \<longrightarrow> interpolate_3d_grid lin df grid_resolution = Inr [])"
  using degenerate_fails [OF assms] no_slice_requested by blast

theorem interpolate_3d_grid_degenerate_raises_witness:
  "flat_table \<noteq> []
   \<and> list_all (\<lambda>r. X_mean r \<noteq> None \<and> Y_mean r \<noteq> None \<and> Z_mean r \<noteq> None) flat_table
   \<and> degenerate (sample_points flat_table)
   \<and> interpolate_3d_grid const_lin flat_table 50 = Inl QhullError
   \<and> interpolate_3d_grid const_lin flat_table 1 = Inr []"
proof -
  note t = interpolate_3d_grid_degenerate_raises [OF flat_table_coords flat_table_degenerate, of _ const_lin]
  have "interpolate_3d_grid const_lin flat_table 50 = Inl QhullError"
    using t [of 50] by simp
  moreover have "interpolate_3d_grid const_lin flat_table 1 = Inr []"
    using t [of 1] by simp
  ultimately show ?thesis
    using flat_table_coords flat_table_degenerate by (simp add: list_all_iff)
qed

text \<open>The claim as stated fails: four samples at the same depth, at resolution 4, make the
  call raise instead of returning slices filled with the fill value.\<close>

theorem interpolate_3d_grid_flat_table_raises:
  "degenerate (sample_points flat_table)
   \<and> interpolate_3d_grid const_lin flat_table 4 = Inl QhullError"
  using degenerate_fails [OF flat_table_coords flat_table_degenerate, of 4 const_lin]
    flat_table_degenerate by simp




section \<open>Properties of the spatial clusterer\<close>

subsection \<open>The traversal\<close>





declare dbscan_expand.simps(2) [simp del] dbscan_inner.simps(2) [simp del]







subsection \<open>The loop over the points\<close>






subsection \<open>Neighbourhoods and core points\<close>

lemma set_neighborhoods:
  "i < length X \<Longrightarrow> set (neighborhoods eps X ! i) = eps_neighbours X eps i"
  by (auto simp: neighborhoods_def eps_neighbours_def)

lemma length_neighborhoods:
  assumes "i < length X"
  shows "length (neighborhoods eps X ! i) = card (eps_neighbours X eps i)"
proof -
  have "distinct (neighborhoods eps X ! i)" using assms by (simp add: neighborhoods_def)
  then have "card (set (neighborhoods eps X ! i)) = length (neighborhoods eps X ! i)"
    by (rule distinct_card)
  then show ?thesis using assms by (simp add: set_neighborhoods)
qed












subsection \<open>Standardization\<close>













subsection \<open>The operation\<close>






















end
